theory Spec2Isabelle
  imports Main "HOL-Library.Sublist"
begin

section \<open>The toolbox ArcPy-Parquet-Tools: data model\<close>

text \<open>
  The development follows the Python toolbox of the repository (the classes
  \<^verbatim>\<open>FeatureClassToParquet\<close> and \<^verbatim>\<open>ParquetToFeatureClass\<close>), in its current form: the
  one with the coordinate and H3 columns. The repository also holds an older copy of the
  toolbox, without these columns. Python strings are
  modelled as \<^typ>\<open>string\<close>, that is, lists of 8-bit characters (code points 0 to 255).
  A Python exception is a value of the type \<open>error\<close>, and a method that may raise
  returns \<open>error + 'a\<close>.
\<close>

datatype error =
    AttributeError
  | TypeError
  | UnboundLocalError
  | ValueError
  | ParquetError

subsection \<open>Parameter objects\<close>

text \<open>
  An \<^verbatim>\<open>arcpy.Parameter\<close> with the attributes the toolbox reads and writes. The type
  variable is the Python type of \<^verbatim>\<open>value\<close>, fixed by the parameter's \<^verbatim>\<open>datatype\<close>
  (a string for GPString, DEFolder, DEFile, DEFeatureClass and GPSpatialReference, a
  boolean for GPBoolean, an integer for GPLong); \<open>None\<close> is Python's \<^verbatim>\<open>None\<close>.
  \<open>filter_type\<close> and \<open>filter_list\<close> are \<^verbatim>\<open>filter.type\<close> and \<^verbatim>\<open>filter.list\<close>;
  \<open>message\<close> is the error message last set with \<^verbatim>\<open>setErrorMessage\<close>. \<open>altered\<close> is
  the flag of the host: the user has changed the value. The toolbox reads it and never
  writes it.
\<close>

record 'v parameter =
  name :: string
  displayName :: string
  direction :: string
  datatype_ :: string
  parameterType :: string
  category :: string
  enabled :: bool
  val :: "'v option"
  altered :: bool
  filter_type :: string
  filter_list :: "string list"
  message :: "string option"

definition Parameter ::
  "string \<Rightarrow> string \<Rightarrow> string \<Rightarrow> string \<Rightarrow> string \<Rightarrow> string \<Rightarrow> bool \<Rightarrow> 'v parameter" where
  "Parameter nm dn dir dt pt cat en =
     \<lparr>name = nm, displayName = dn, direction = dir, datatype_ = dt, parameterType = pt,
      category = cat, enabled = en, val = None, altered = False, filter_type = [],
      filter_list = [], message = None\<rparr>"

definition setErrorMessage :: "string \<Rightarrow> 'v parameter \<Rightarrow> 'v parameter" where
  "setErrorMessage msg p = p\<lparr>message := Some msg\<rparr>"

text \<open>\<^verbatim>\<open>valueAsText\<close> of a string-valued parameter is its value.\<close>

definition valueAsText :: "string parameter \<Rightarrow> string option" where
  "valueAsText p = val p"

text \<open>
  Modelled from the spec: \<^verbatim>\<open>deactivate_parameter\<close> is imported from
  \<^verbatim>\<open>arcpy_parquet.utils.pyt_utils\<close>, whose source is missing. A deactivated column
  parameter is the opposite of an "enabled and required" one: it is disabled and
  optional. Its other attributes are left as they are.
\<close>

definition deactivate_parameter :: "'v parameter \<Rightarrow> 'v parameter" where
  "deactivate_parameter p = p\<lparr>enabled := False, parameterType := ''Optional''\<rparr>"

subsection \<open>Integers as text\<close>

text \<open>
  \<^verbatim>\<open>valueAsText\<close> of a GPLong parameter is the decimal text of the integer, as
  Python's \<^verbatim>\<open>str\<close> prints it, and \<^verbatim>\<open>int\<close> reads it back. \<open>int_of_str\<close> models
  \<^verbatim>\<open>int(s)\<close> on the strings made of optional surrounding blanks, an optional sign and
  decimal digits; every other string gives \<open>ValueError\<close> (the digit separators that
  Python also accepts are not modelled).
\<close>

definition digit_char :: "nat \<Rightarrow> char" where
  "digit_char d = char_of (48 + d)"

function str_nat :: "nat \<Rightarrow> string" where
  "str_nat n = (if n < 10 then [digit_char n] else str_nat (n div 10) @ [digit_char (n mod 10)])"
  by pat_completeness auto
termination
  by (relation "measure id") auto

declare str_nat.simps [simp del]

definition str_int :: "int \<Rightarrow> string" where
  "str_int i = (if i < 0 then CHR ''-'' # str_nat (nat (- i)) else str_nat (nat i))"

definition valueAsText_long :: "int parameter \<Rightarrow> string option" where
  "valueAsText_long p = map_option str_int (val p)"

definition is_digit :: "char \<Rightarrow> bool" where
  "is_digit c = (48 \<le> (of_char c :: nat) \<and> (of_char c :: nat) \<le> 57)"

definition is_space :: "char \<Rightarrow> bool" where
  "is_space c = ((of_char c :: nat) = 32 \<or> (9 \<le> (of_char c :: nat) \<and> (of_char c :: nat) \<le> 13))"

fun parse_digits :: "nat \<Rightarrow> string \<Rightarrow> nat option" where
  "parse_digits acc [] = Some acc"
| "parse_digits acc (c # cs) =
     (if is_digit c then parse_digits (acc * 10 + ((of_char c :: nat) - 48)) cs else None)"

definition strip :: "string \<Rightarrow> string" where
  "strip s = rev (dropWhile is_space (rev (dropWhile is_space s)))"

definition parse_unsigned :: "string \<Rightarrow> error + int" where
  "parse_unsigned s =
     (if s = [] then Inl ValueError
      else case parse_digits 0 s of None \<Rightarrow> Inl ValueError | Some n \<Rightarrow> Inr (int n))"

definition int_of_str :: "string \<Rightarrow> error + int" where
  "int_of_str s =
     (case strip s of
        [] \<Rightarrow> Inl ValueError
      | c # cs \<Rightarrow>
          if c = CHR ''-'' then
            (case parse_unsigned cs of Inl e \<Rightarrow> Inl e | Inr n \<Rightarrow> Inr (- n))
          else if c = CHR ''+'' then parse_unsigned cs
          else parse_unsigned (c # cs))"

text \<open>\<^verbatim>\<open>int(x)\<close> for \<^verbatim>\<open>x\<close> a string or \<^verbatim>\<open>None\<close>: \<^verbatim>\<open>int(None)\<close> raises TypeError.\<close>

definition py_int :: "string option \<Rightarrow> error + int" where
  "py_int x = (case x of None \<Rightarrow> Inl TypeError | Some s \<Rightarrow> int_of_str s)"

subsection \<open>Paths\<close>

text \<open>
  A \<^verbatim>\<open>pathlib.Path\<close> is the list of its components below the root (paths are written
  with the separator \<^verbatim>\<open>/\<close>, which both flavours of \<^verbatim>\<open>pathlib\<close> accept, and every path is
  read from the root). \<open>Path\<close> parses a string: empty components and
  \<^verbatim>\<open>.\<close> are dropped, \<^verbatim>\<open>..\<close> is kept. \<open>joinpath\<close> is the operator \<^verbatim>\<open>/\<close> with a string
  on the right: an absolute right operand replaces the left one.
\<close>

type_synonym path = "string list"

fun split_sep :: "char \<Rightarrow> string \<Rightarrow> string list" where
  "split_sep sep [] = [[]]"
| "split_sep sep (c # cs) =
     (if c = sep then [] # split_sep sep cs
      else (case split_sep sep cs of [] \<Rightarrow> [[c]] | w # ws \<Rightarrow> (c # w) # ws))"

definition Path :: "string \<Rightarrow> path" where
  "Path s = filter (\<lambda>c. c \<noteq> [] \<and> c \<noteq> ''.'') (split_sep CHR ''/'' s)"

text \<open>\<^verbatim>\<open>Path(x)\<close> for \<^verbatim>\<open>x\<close> a string or \<^verbatim>\<open>None\<close>: \<^verbatim>\<open>Path(None)\<close> raises TypeError.\<close>

definition py_Path :: "string option \<Rightarrow> error + path" where
  "py_Path x = (case x of None \<Rightarrow> Inl TypeError | Some s \<Rightarrow> Inr (Path s))"

definition joinpath :: "path \<Rightarrow> string \<Rightarrow> path" where
  "joinpath p s = (if s \<noteq> [] \<and> hd s = CHR ''/'' then Path s else p @ Path s)"

text \<open>\<^verbatim>\<open>p / x\<close> for \<^verbatim>\<open>x\<close> a string or \<^verbatim>\<open>None\<close>: \<^verbatim>\<open>p / None\<close> raises TypeError.\<close>

definition py_joinpath :: "path \<Rightarrow> string option \<Rightarrow> error + path" where
  "py_joinpath p x = (case x of None \<Rightarrow> Inl TypeError | Some s \<Rightarrow> Inr (joinpath p s))"

definition parent :: "path \<Rightarrow> path" where
  "parent p = butlast p"

definition str_path :: "path \<Rightarrow> string" where
  "str_path p = (if p = [] then ''/'' else concat (map (\<lambda>c. CHR ''/'' # c) p))"

text \<open>
  \<^verbatim>\<open>stem\<close>: the last component without its last suffix. The suffix starts at the last
  dot of the name, unless that dot is the first or the last character of the name.
\<close>

fun rfind :: "char \<Rightarrow> string \<Rightarrow> nat option" where
  "rfind c [] = None"
| "rfind c (x # xs) =
     (case rfind c xs of
        Some i \<Rightarrow> Some (Suc i)
      | None \<Rightarrow> if x = c then Some 0 else None)"

definition stem_of_name :: "string \<Rightarrow> string" where
  "stem_of_name nm =
     (case rfind CHR ''.'' nm of
        None \<Rightarrow> nm
      | Some i \<Rightarrow> if 0 < i \<and> i < length nm - 1 then take i nm else nm)"

definition stem :: "path \<Rightarrow> string" where
  "stem p = (if p = [] then [] else stem_of_name (last p))"

subsection \<open>The file system\<close>

text \<open>
  A directory tree: every node carries its name, a directory the list of its entries in
  the order in which the operating system lists them. The root is a directory whose own
  name is not used. \<open>resolve\<close> walks a path down from the root; the component \<^verbatim>\<open>..\<close>
  goes back to the directory above (the root is its own parent). There are no symbolic
  links.
\<close>

datatype fsnode = File string | Dir string "fsnode list"

fun node_name :: "fsnode \<Rightarrow> string" where
  "node_name (File nm) = nm"
| "node_name (Dir nm es) = nm"

fun node_is_dir :: "fsnode \<Rightarrow> bool" where
  "node_is_dir (File nm) = False"
| "node_is_dir (Dir nm es) = True"

fun resolve :: "fsnode list \<Rightarrow> fsnode \<Rightarrow> path \<Rightarrow> fsnode option" where
  "resolve anc n [] = Some n"
| "resolve anc (File nm) (c # cs) = None"
| "resolve anc (Dir nm es) (c # cs) =
     (if c = ''..'' then
        (case anc of [] \<Rightarrow> resolve [] (Dir nm es) cs | a # as \<Rightarrow> resolve as a cs)
      else
        (case find (\<lambda>n. node_name n = c) es of
           None \<Rightarrow> None
         | Some n \<Rightarrow> resolve (Dir nm es # anc) n cs))"

definition is_dir :: "fsnode \<Rightarrow> path \<Rightarrow> bool" where
  "is_dir root p = (case resolve [] root p of Some n \<Rightarrow> node_is_dir n | None \<Rightarrow> False)"

text \<open>The entries of the directory at a path; none when the path is no directory.\<close>

definition scandir :: "fsnode \<Rightarrow> path \<Rightarrow> fsnode list" where
  "scandir root p = (case resolve [] root p of Some (Dir nm es) \<Rightarrow> es | _ \<Rightarrow> [])"

text \<open>
  \<^verbatim>\<open>str.lower\<close> on 8-bit characters: the capital letters of ASCII and of Latin-1
  move to their small letters.
\<close>

definition lower_char :: "char \<Rightarrow> char" where
  "lower_char c =
     (let n = (of_char c :: nat)
      in if (65 \<le> n \<and> n \<le> 90) \<or> (192 \<le> n \<and> n \<le> 222 \<and> n \<noteq> 215)
         then char_of (n + 32) else c)"

definition lower :: "string \<Rightarrow> string" where
  "lower s = map lower_char s"

text \<open>
  Matching of one name against one pattern component, with the wildcards \<^verbatim>\<open>*\<close> and
  \<^verbatim>\<open>?\<close> (the patterns of the toolbox have no character classes), and with no special
  treatment of names that start with a dot, as in \<^verbatim>\<open>pathlib\<close>. \<open>fnmatch\<close> compares the
  characters as they are. \<open>path_match\<close> is the matching of the two flavours of
  \<^verbatim>\<open>pathlib\<close>: a \<^verbatim>\<open>PosixPath\<close> matches with regard to case, a \<^verbatim>\<open>WindowsPath\<close>, the flavour
  on the hosts of the geoprocessing application, without.
\<close>

fun fnmatch :: "string \<Rightarrow> string \<Rightarrow> bool" where
  "fnmatch [] [] = True"
| "fnmatch [] (c # cs) = False"
| "fnmatch (p # ps) [] = (p = CHR ''*'' \<and> fnmatch ps [])"
| "fnmatch (p # ps) (c # cs) =
     (if p = CHR ''*'' then fnmatch ps (c # cs) \<or> fnmatch (p # ps) cs
      else (p = CHR ''?'' \<or> p = c) \<and> fnmatch ps cs)"

definition path_match :: "bool \<Rightarrow> string \<Rightarrow> string \<Rightarrow> bool" where
  "path_match ic pat nm = (if ic then fnmatch (lower pat) (lower nm) else fnmatch pat nm)"

text \<open>
  The environment of the toolbox: the file system, whether patterns match without regard
  to case (the flavour of \<^verbatim>\<open>pathlib\<close>), whether the module \<^verbatim>\<open>h3\<close> can be imported, the
  text of the spatial reference 4326, and the column names that
  \<^verbatim>\<open>pq.ParquetDataset(path, use_legacy_dataset=False).schema.names\<close> gives for a path
  (\<open>None\<close> when the Parquet library raises). Names are looked up in a directory as they
  are spelled in the tree.
\<close>

record env =
  fs :: fsnode
  ignore_case :: bool
  has_h3 :: bool
  wgs84 :: string
  schema_names :: "string \<Rightarrow> string list option"

text \<open>\<^verbatim>\<open>p.glob(pat)\<close> for a pattern of one component: the matching entries of \<open>p\<close>.\<close>

definition glob :: "env \<Rightarrow> string \<Rightarrow> path \<Rightarrow> path list" where
  "glob e pat p =
     map (\<lambda>n. p @ [node_name n])
       (filter (\<lambda>n. path_match (ignore_case e) pat (node_name n)) (scandir (fs e) p))"

text \<open>
  \<^verbatim>\<open>p.rglob(pat)\<close>, which is \<^verbatim>\<open>p.glob("**/" + pat)\<close>: the matching entries of \<open>p\<close>, then
  those of every directory below it, directory by directory. Files and directories
  both match.
\<close>

fun rglob_node :: "bool \<Rightarrow> string \<Rightarrow> path \<Rightarrow> fsnode \<Rightarrow> path list" where
  "rglob_node ic pat p (File nm) = []"
| "rglob_node ic pat p (Dir nm es) =
     map (\<lambda>n. p @ [node_name n]) (filter (\<lambda>n. path_match ic pat (node_name n)) es)
     @ concat (map (\<lambda>n. rglob_node ic pat (p @ [node_name n]) n) es)"

definition rglob :: "env \<Rightarrow> string \<Rightarrow> path \<Rightarrow> path list" where
  "rglob e pat p =
     (case resolve [] (fs e) p of
        Some n \<Rightarrow> rglob_node (ignore_case e) pat p n
      | None \<Rightarrow> [])"

subsection \<open>The tool Feature Class to Parquet\<close>

definition FeatureClassToParquet_getParameterInfo :: "string parameter list" where
  "FeatureClassToParquet_getParameterInfo =
     (let input_table = Parameter ''input_table'' ''Input Feature Class'' ''Input''
            ''GPFeatureLayer'' ''Required'' [] True;
          output_parquet = Parameter ''pqt_pth'' ''Output Parquet'' ''Output''
            ''DEFolder'' ''Required'' [] True;
          geometry_format = Parameter ''geometry_format'' ''Geometry Format'' ''Input''
            ''GPString'' ''Required'' ''Advanced'' True;
          geometry_format = geometry_format\<lparr>filter_type := ''ValueList''\<rparr>;
          geometry_format = geometry_format\<lparr>filter_list := [''WKB'', ''WKT'', ''XY'']\<rparr>;
          geometry_format = geometry_format\<lparr>val := Some ''WKB''\<rparr>
      in [input_table, output_parquet, geometry_format])"

subsection \<open>The tool Parquet to Feature Class\<close>

record parameters =
  pqt_pth :: "string parameter"
  pqt_prt_01 :: "string parameter"
  pqt_prt_02 :: "string parameter"
  pqt_prt_03 :: "string parameter"
  sptl_ref :: "string parameter"
  out_fc_pth :: "string parameter"
  geom_col :: "string parameter"
  geom_type :: "string parameter"
  x_col :: "string parameter"
  y_col :: "string parameter"
  h3_col :: "string parameter"
  build_idx :: "bool parameter"
  smpl :: "bool parameter"
  smpl_cnt :: "int parameter"
  schema_file_pth :: "string parameter"

definition get_partition_lst :: "env \<Rightarrow> path \<Rightarrow> string list" where
  "get_partition_lst e dir_pth =
     map stem (filter (\<lambda>p. is_dir (fs e) p \<and> stem p \<noteq> []) (glob e ''*'' dir_pth))"

definition getParameterInfo :: "env \<Rightarrow> parameters" where
  "getParameterInfo e =
     (let fltr_lst = [''POINT'', ''POLYLINE'', ''POLYGON'', ''COORDINATES''];
          fltr_lst = (if has_h3 e then fltr_lst @ [''H3''] else fltr_lst)
      in
      \<lparr>pqt_pth = Parameter ''pqt_pth'' ''Parquet Folder'' ''Input'' ''DEFolder'' ''Required'' [] True,
       pqt_prt_01 = Parameter ''pqt_prt_01'' ''Parquet Partition'' ''Input'' ''GPString''
         ''Optional'' [] False,
       pqt_prt_02 = Parameter ''pqt_prt_02'' ''Parquet Partition'' ''Input'' ''GPString''
         ''Optional'' [] False,
       pqt_prt_03 = Parameter ''pqt_prt_03'' ''Parquet Partition'' ''Input'' ''GPString''
         ''Optional'' [] False,
       sptl_ref = (Parameter ''sptl_ref'' ''Spatial Reference'' ''Input'' ''GPSpatialReference''
         ''Required'' [] True)\<lparr>val := Some (wgs84 e)\<rparr>,
       out_fc_pth = Parameter ''out_fc_pth'' ''Output Feature Class Path'' ''Output''
         ''DEFeatureClass'' ''Required'' [] True,
       geom_col = (Parameter ''geom_col'' ''Geometry Column'' ''Input'' ''GPString''
         ''Optional'' ''Advanced'' False)\<lparr>filter_type := ''ValueList''\<rparr>,
       geom_type = (Parameter ''geom_type'' ''Geometry Type'' ''Input'' ''GPString''
         ''Required'' [] True)
         \<lparr>filter_type := ''ValueList'', filter_list := fltr_lst, val := Some ''COORDINATES''\<rparr>,
       x_col = (Parameter ''x_col'' ''Longitude (X) Column'' ''Input'' ''GPString''
         ''Optional'' [] True)\<lparr>filter_type := ''ValueList''\<rparr>,
       y_col = (Parameter ''y_col'' ''Latitude (Y) Column'' ''Input'' ''GPString''
         ''Optional'' [] True)\<lparr>filter_type := ''ValueList''\<rparr>,
       h3_col = (Parameter ''h3_col'' ''H3 Index Column'' ''Input'' ''GPString''
         ''Optional'' [] False)\<lparr>filter_type := ''ValueList''\<rparr>,
       build_idx = (Parameter ''build_idx'' ''Build Spatial Index'' ''Output'' ''GPBoolean''
         ''Required'' ''Advanced'' True)\<lparr>val := Some True\<rparr>,
       smpl = (Parameter ''smpl'' ''Export Sample'' ''Input'' ''GPBoolean''
         ''Optional'' ''Advanced'' True)\<lparr>val := Some False\<rparr>,
       smpl_cnt = (Parameter ''smpl_cnt'' ''Sample Count'' ''Input'' ''GPLong''
         ''Optional'' ''Advanced'' False)\<lparr>val := Some 100\<rparr>,
       schema_file_pth = (Parameter ''schema_file_pth'' ''Schema File'' ''Input'' ''DEFile''
         ''Optional'' ''Advanced'' True)\<lparr>filter_list := [''csv'']\<rparr>\<rparr>)"

text \<open>
  \<^verbatim>\<open>updateParameters\<close>, block by block. The local variable \<^verbatim>\<open>p_pth\<close> is bound only
  inside the first block; it is carried as an option, \<open>None\<close> while unbound.
\<close>

text \<open>
  Pre-populating the output name reads \<^verbatim>\<open>out_fc_pth.stem\<close>; \<^verbatim>\<open>out_fc_pth\<close> is a
  parameter object, which has no attribute \<^verbatim>\<open>stem\<close>, so the read raises.
\<close>

definition prepopulate_output :: "parameters \<Rightarrow> error + parameters" where
  "prepopulate_output ps =
     (if altered (pqt_pth ps) \<and> val (out_fc_pth ps) = None then Inl AttributeError
      else Inr ps)"

definition set_partition_options :: "string list \<Rightarrow> string parameter \<Rightarrow> string parameter" where
  "set_partition_options lst p =
     (if length lst \<noteq> 0
      then p\<lparr>filter_type := ''ValueList'', filter_list := lst, enabled := True\<rparr>
      else p)"

definition part_file_message :: string where
  \<open>part_file_message = ''Cannot locate parquet "part" files.''\<close>

definition locate_parquet :: "env \<Rightarrow> parameters \<Rightarrow> error + (path option \<times> parameters)" where
  "locate_parquet e ps =
     (if altered (pqt_pth ps) then
        (case py_Path (valueAsText (pqt_pth ps)) of
           Inl err \<Rightarrow> Inl err
         | Inr p_pth \<Rightarrow>
             let has_part_file = (rglob e ''part-*.parquet'' p_pth \<noteq> []);
                 ps1 = (if \<not> has_part_file
                        then ps\<lparr>pqt_pth := setErrorMessage part_file_message (pqt_pth ps)\<rparr>
                        else ps);
                 prt_01_lst = get_partition_lst e p_pth
             in Inr (Some p_pth,
                     ps1\<lparr>pqt_prt_01 := set_partition_options prt_01_lst (pqt_prt_01 ps1)\<rparr>))
      else Inr (None, ps))"

definition partition_level_two ::
  "env \<Rightarrow> path option \<Rightarrow> parameters \<Rightarrow> error + parameters" where
  "partition_level_two e p_pth ps =
     (if altered (pqt_prt_01 ps) then
        (case p_pth of
           None \<Rightarrow> Inl UnboundLocalError
         | Some p \<Rightarrow>
             (case py_joinpath p (val (pqt_prt_01 ps)) of
                Inl err \<Rightarrow> Inl err
              | Inr d \<Rightarrow>
                  Inr (ps\<lparr>pqt_prt_02 :=
                         set_partition_options (get_partition_lst e d) (pqt_prt_02 ps)\<rparr>)))
      else Inr ps)"

definition partition_level_three ::
  "env \<Rightarrow> path option \<Rightarrow> parameters \<Rightarrow> error + parameters" where
  "partition_level_three e p_pth ps =
     (if altered (pqt_prt_02 ps) then
        (case p_pth of
           None \<Rightarrow> Inl UnboundLocalError
         | Some p \<Rightarrow>
             (case py_joinpath p (val (pqt_prt_01 ps)) of
                Inl err \<Rightarrow> Inl err
              | Inr d1 \<Rightarrow>
                  (case py_joinpath d1 (val (pqt_prt_02 ps)) of
                     Inl err \<Rightarrow> Inl err
                   | Inr d2 \<Rightarrow>
                       Inr (ps\<lparr>pqt_prt_03 :=
                              set_partition_options (get_partition_lst e d2)
                                (pqt_prt_03 ps)\<rparr>))))
      else Inr ps)"

definition sample_count_message :: string where
  "sample_count_message = ''Sample count must be greater than zero.''"

text \<open>
  The chain on the sample flag. \<^verbatim>\<open>smpl.value is True\<close> holds for the value \<open>Some True\<close>
  only, \<^verbatim>\<open>smpl.value is False\<close> for \<open>Some False\<close> only; \<^verbatim>\<open>smpl_cnt.value < 1\<close> is
  evaluated only after \<^verbatim>\<open>smpl_cnt.value is None\<close> has failed.
\<close>

definition count_below_one :: "int parameter \<Rightarrow> bool" where
  "count_below_one p = (case val p of None \<Rightarrow> False | Some n \<Rightarrow> n < 1)"

definition check_sample :: "parameters \<Rightarrow> parameters" where
  "check_sample ps =
     (if val (smpl ps) = Some True \<and> val (smpl_cnt ps) = None then
        ps\<lparr>smpl_cnt := setErrorMessage sample_count_message (smpl_cnt ps)\<rparr>
      else if val (smpl ps) = Some True \<and> count_below_one (smpl_cnt ps) then
        ps\<lparr>smpl_cnt := setErrorMessage sample_count_message (smpl_cnt ps)\<rparr>
      else if altered (smpl ps) \<and> val (smpl ps) = Some True then
        ps\<lparr>smpl_cnt := (smpl_cnt ps)\<lparr>enabled := True\<rparr>\<rparr>
      else if altered (smpl ps) \<and> val (smpl ps) = Some False \<and> val (smpl_cnt ps) = None then
        ps\<lparr>smpl_cnt := (smpl_cnt ps)\<lparr>val := Some 100\<rparr>\<rparr>
      else if altered (smpl ps) \<and> val (smpl ps) = Some False \<and> count_below_one (smpl_cnt ps) then
        ps\<lparr>smpl_cnt := (smpl_cnt ps)\<lparr>val := Some 100\<rparr>\<rparr>
      else if altered (smpl ps) \<and> val (smpl ps) = Some False then
        ps\<lparr>smpl_cnt := (smpl_cnt ps)\<lparr>enabled := False\<rparr>\<rparr>
      else ps)"

text \<open>The four defaults: geometry, longitude, latitude and H3 column.\<close>

record defaults =
  geom_col_value :: "string option"
  x_col_value :: "string option"
  y_col_value :: "string option"
  h3_col_value :: "string option"

definition no_defaults :: defaults where
  "no_defaults =
     \<lparr>geom_col_value = None, x_col_value = None, y_col_value = None, h3_col_value = None\<rparr>"

definition default_step :: "string \<Rightarrow> defaults \<Rightarrow> defaults" where
  "default_step col d =
     (let d = (if sublist ''wkb'' (lower col) then d\<lparr>geom_col_value := Some col\<rparr> else d);
          d = (if lower col \<in> set [''x'', ''lon'', ''longitude'']
               then d\<lparr>x_col_value := Some col\<rparr> else d);
          d = (if lower col \<in> set [''y'', ''lat'', ''latitude'']
               then d\<lparr>y_col_value := Some col\<rparr> else d);
          d = (if prefix ''h3'' (lower col) then d\<lparr>h3_col_value := Some col\<rparr> else d)
      in d)"

fun search_defaults :: "string list \<Rightarrow> defaults \<Rightarrow> defaults" where
  "search_defaults [] d = d"
| "search_defaults (col # cols) d = search_defaults cols (default_step col d)"

definition read_columns :: "env \<Rightarrow> parameters \<Rightarrow> error + (defaults \<times> parameters)" where
  "read_columns e ps =
     (if altered (pqt_pth ps) then
        (case valueAsText (pqt_pth ps) of
           None \<Rightarrow> Inl TypeError
         | Some s \<Rightarrow>
             (case schema_names e s of
                None \<Rightarrow> Inl ParquetError
              | Some col_lst \<Rightarrow>
                  Inr (search_defaults col_lst no_defaults,
                       ps\<lparr>geom_col := (geom_col ps)\<lparr>filter_list := col_lst\<rparr>,
                          x_col := (x_col ps)\<lparr>filter_list := col_lst\<rparr>,
                          y_col := (y_col ps)\<lparr>filter_list := col_lst\<rparr>,
                          h3_col := (h3_col ps)\<lparr>filter_list := col_lst\<rparr>\<rparr>)))
      else Inr (no_defaults, ps))"

text \<open>A column parameter of the group the geometry type selects.\<close>

definition require_column :: "string option \<Rightarrow> string parameter \<Rightarrow> string parameter" where
  "require_column dflt p =
     (let p = p\<lparr>parameterType := ''Required''\<rparr>;
          p = p\<lparr>enabled := True\<rparr>
      in if val p = None then p\<lparr>val := dflt\<rparr> else p)"

definition required_columns :: "defaults \<Rightarrow> parameters \<Rightarrow> parameters" where
  "required_columns d ps =
     (if altered (geom_type ps) \<or> altered (pqt_pth ps) then
        (if val (geom_type ps) = Some ''COORDINATES'' then
           ps\<lparr>x_col := require_column (x_col_value d) (x_col ps),
              y_col := require_column (y_col_value d) (y_col ps),
              geom_col := deactivate_parameter (geom_col ps),
              h3_col := deactivate_parameter (h3_col ps)\<rparr>
         else if val (geom_type ps) = Some ''H3'' then
           ps\<lparr>h3_col := require_column (h3_col_value d) (h3_col ps),
              geom_col := deactivate_parameter (geom_col ps),
              x_col := deactivate_parameter (x_col ps),
              y_col := deactivate_parameter (y_col ps)\<rparr>
         else
           ps\<lparr>geom_col := require_column (geom_col_value d) (geom_col ps),
              x_col := deactivate_parameter (x_col ps),
              y_col := deactivate_parameter (y_col ps),
              h3_col := deactivate_parameter (h3_col ps)\<rparr>)
      else ps)"

text \<open>
  The schema file kept beside the dataset by convention: the first \<^verbatim>\<open>part*.csv\<close> below
  the first entry called \<^verbatim>\<open>schema\<close> below the parent of the dataset.
\<close>

definition find_schema_file :: "env \<Rightarrow> parameters \<Rightarrow> error + parameters" where
  "find_schema_file e ps =
     (if altered (pqt_pth ps) then
        (case py_Path (valueAsText (pqt_pth ps)) of
           Inl err \<Rightarrow> Inl err
         | Inr p \<Rightarrow>
             (case rglob e ''schema'' (parent p) of
                [] \<Rightarrow> Inr ps
              | schm_dir_pth # _ \<Rightarrow>
                  (case rglob e ''part*.csv'' schm_dir_pth of
                     [] \<Rightarrow> Inr ps
                   | csv_pth # _ \<Rightarrow>
                       Inr (ps\<lparr>schema_file_pth :=
                              (schema_file_pth ps)\<lparr>val := Some (str_path csv_pth)\<rparr>\<rparr>))))
      else Inr ps)"

definition updateParameters :: "env \<Rightarrow> parameters \<Rightarrow> error + parameters" where
  "updateParameters e ps =
     (case prepopulate_output ps of
        Inl err \<Rightarrow> Inl err
      | Inr ps1 \<Rightarrow>
     (case locate_parquet e ps1 of
        Inl err \<Rightarrow> Inl err
      | Inr (p_pth, ps2) \<Rightarrow>
     (case partition_level_two e p_pth ps2 of
        Inl err \<Rightarrow> Inl err
      | Inr ps3 \<Rightarrow>
     (case partition_level_three e p_pth ps3 of
        Inl err \<Rightarrow> Inl err
      | Inr ps4 \<Rightarrow>
     (case read_columns e (check_sample ps4) of
        Inl err \<Rightarrow> Inl err
      | Inr (d, ps5) \<Rightarrow> find_schema_file e (required_columns d ps5))))))"

text \<open>
  \<^verbatim>\<open>execute\<close> ends with one call of \<^verbatim>\<open>parquet_to_feature_class\<close>; the model returns
  the arguments of that call. The geometry column is the list of the two coordinate
  columns or one column.
\<close>

datatype geometry_column =
    Coordinates "string option" "string option"
  | Column "string option"

record call =
  parquet_path :: "string option"
  output_feature_class :: path
  schema_file :: "path option"
  geometry_type :: "string option"
  parquet_partitions :: "string list"
  geometry_column :: geometry_column
  spatial_reference :: "string option"
  sample_count :: "int option"
  build_spatial_index :: "bool option"

definition not_none :: "'a option list \<Rightarrow> 'a list" where
  "not_none xs = map the (filter (\<lambda>p. p \<noteq> None) xs)"

definition execute :: "parameters \<Rightarrow> error + call" where
  "execute ps =
     (let pqt_pth = valueAsText (pqt_pth ps);
          pqt_prt_01 = valueAsText (pqt_prt_01 ps);
          pqt_prt_02 = valueAsText (pqt_prt_02 ps);
          pqt_prt_03 = valueAsText (pqt_prt_03 ps);
          sptl_ref = val (sptl_ref ps);
          out_fc_pth = valueAsText (out_fc_pth ps);
          geom_col = valueAsText (geom_col ps);
          geom_type = valueAsText (geom_type ps);
          x_col = valueAsText (x_col ps);
          y_col = valueAsText (y_col ps);
          h3_col = valueAsText (h3_col ps);
          build_idx = val (build_idx ps);
          smpl = val (smpl ps);
          smpl_cnt = valueAsText_long (smpl_cnt ps);
          schema_file_pth = map_option Path (valueAsText (schema_file_pth ps));
          partition_vals = not_none [pqt_prt_01, pqt_prt_02, pqt_prt_03];
          geometry_column =
            (if geom_type = Some ''COORDINATES'' then Coordinates x_col y_col
             else if geom_type = Some ''H3'' then Column h3_col
             else Column geom_col)
      in case (if smpl = Some True then map_sum id Some (py_int smpl_cnt) else Inr None) of
           Inl err \<Rightarrow> Inl err
         | Inr cnt \<Rightarrow>
             (case py_Path out_fc_pth of
                Inl err \<Rightarrow> Inl err
              | Inr out \<Rightarrow>
                  Inr \<lparr>parquet_path = pqt_pth, output_feature_class = out,
                       schema_file = schema_file_pth, geometry_type = geom_type,
                       parquet_partitions = partition_vals, geometry_column = geometry_column,
                       spatial_reference = sptl_ref, sample_count = cnt,
                       build_spatial_index = build_idx\<rparr>))"

section \<open>Notions used to state the properties\<close>

text \<open>
  The states from which \<open>updateParameters\<close> returns: with the Parquet folder altered,
  the output feature class has a value, the folder has one and the Parquet library reads
  its schema; a partition level is altered only together with the folder, and the
  partition values that are joined to the folder are there.
\<close>

definition runs_without_exception :: "env \<Rightarrow> parameters \<Rightarrow> bool" where
  "runs_without_exception e ps =
     ((altered (pqt_pth ps) \<longrightarrow>
         val (out_fc_pth ps) \<noteq> None \<and>
         (case val (pqt_pth ps) of None \<Rightarrow> False | Some s \<Rightarrow> schema_names e s \<noteq> None)) \<and>
      (altered (pqt_prt_01 ps) \<longrightarrow> altered (pqt_pth ps) \<and> val (pqt_prt_01 ps) \<noteq> None) \<and>
      (altered (pqt_prt_02 ps) \<longrightarrow>
         altered (pqt_pth ps) \<and> val (pqt_prt_01 ps) \<noteq> None \<and> val (pqt_prt_02 ps) \<noteq> None))"

text \<open>
  A well-formed directory tree: the names of the entries of a directory are distinct,
  and each is a proper file name.
\<close>

definition valid_name :: "string \<Rightarrow> bool" where
  "valid_name nm = (nm \<noteq> [] \<and> nm \<noteq> ''.'' \<and> nm \<noteq> ''..'' \<and> CHR ''/'' \<notin> set nm)"

fun wf_node :: "fsnode \<Rightarrow> bool" where
  "wf_node (File nm) = True"
| "wf_node (Dir nm es) =
     (distinct (map node_name es) \<and> (\<forall>n \<in> set es. valid_name (node_name n) \<and> wf_node n))"

text \<open>The stems of the names of the immediate child directories of a path.\<close>

definition child_directory_stems :: "fsnode \<Rightarrow> path \<Rightarrow> string list" where
  "child_directory_stems root p =
     map (\<lambda>n. stem_of_name (node_name n)) (filter node_is_dir (scandir root p))"

text \<open>Every entry below a node, at any depth, and every entry below a path.\<close>

fun descendants :: "fsnode \<Rightarrow> fsnode list" where
  "descendants (File nm) = []"
| "descendants (Dir nm es) = es @ concat (map descendants es)"

definition entries_below :: "fsnode \<Rightarrow> path \<Rightarrow> fsnode list" where
  "entries_below root p = (case resolve [] root p of Some n \<Rightarrow> descendants n | None \<Rightarrow> [])"

text \<open>The files among them: the entries that are no directories.\<close>

definition files_below :: "fsnode \<Rightarrow> path \<Rightarrow> fsnode list" where
  "files_below root p = filter (\<lambda>n. \<not> node_is_dir n) (entries_below root p)"

text \<open>A column parameter that is enabled and required, and one that is neither.\<close>

definition active :: "'v parameter \<Rightarrow> bool" where
  "active p = (enabled p \<and> parameterType p = ''Required'')"

definition inactive :: "'v parameter \<Rightarrow> bool" where
  "inactive p = (\<not> enabled p \<and> parameterType p \<noteq> ''Required'')"

subsection \<open>An example installation\<close>

definition example_fs :: fsnode where
  "example_fs =
     Dir [] [Dir ''data''
       [Dir ''pq''
          [Dir ''year=2020''
             [Dir ''month=01'' [File ''part-0000.parquet''],
              Dir ''month=02'' [Dir ''day=1'' [File ''part-0001.parquet'']]],
           Dir ''year=2021'' [],
           File ''_SUCCESS''],
        Dir ''schema'' [File ''_SUCCESS'', File ''part-0000.csv''],
        Dir ''empty'' [],
        Dir ''odd'' [Dir ''part-0.parquet'' [], File ''data.parquet'']]]"

definition example_schema :: "string \<Rightarrow> string list option" where
  "example_schema s =
     (if s = ''/data/pq''
      then Some [''id'', ''Longitude'', ''LAT'', ''lat'', ''geom_WKB'', ''h3_09'']
      else if s = ''/data/empty'' \<or> s = ''/data/odd'' then Some [''id'']
      else None)"

definition example_env :: env where
  "example_env =
     \<lparr>fs = example_fs, ignore_case = True, has_h3 = True, wgs84 = ''GEOGCS'',
      schema_names = example_schema\<rparr>"

definition env_without_h3 :: env where
  "env_without_h3 = example_env\<lparr>has_h3 := False\<rparr>"

text \<open>A value entered by the user: the parameter has the value and is altered.\<close>

definition entered :: "'v \<Rightarrow> 'v parameter \<Rightarrow> 'v parameter" where
  "entered v p = p\<lparr>val := Some v, altered := True\<rparr>"

definition emptied :: "'v parameter \<Rightarrow> 'v parameter" where
  "emptied p = p\<lparr>val := None, altered := False\<rparr>"

text \<open>The dialog as it opens, then with the Parquet folder chosen.\<close>

definition folder_chosen :: parameters where
  "folder_chosen = pqt_pth_update (entered ''/data/pq'') (getParameterInfo example_env)"

text \<open>The same with an output feature class, and with two partition levels chosen.\<close>

definition output_chosen :: parameters where
  "output_chosen = out_fc_pth_update (entered ''/out.gdb/fc'') folder_chosen"

definition partitions_chosen :: parameters where
  "partitions_chosen =
     pqt_prt_02_update (entered ''month=02'')
       (pqt_prt_01_update (entered ''year=2020'') output_chosen)"

text \<open>A partition chosen, the Parquet folder then emptied: it is no longer altered.\<close>

definition folder_cleared :: parameters where
  "folder_cleared = pqt_pth_update emptied partitions_chosen"

text \<open>Everything chosen, the coordinate columns too, and a sample of 25 rows asked for.\<close>

definition ready_to_run :: parameters where
  "ready_to_run =
     smpl_cnt_update (entered 25)
       (smpl_update (entered True)
          (y_col_update (entered ''lat'')
             (x_col_update (entered ''Longitude'') partitions_chosen)))"

text \<open>A folder without part files, a sample of no rows, the sample then switched off.\<close>

definition empty_folder_chosen :: parameters where
  "empty_folder_chosen =
     out_fc_pth_update (entered ''/out.gdb/fc'')
       (pqt_pth_update (entered ''/data/empty'') (getParameterInfo example_env))"

text \<open>
  A folder with no part file in it, but with a directory that is named like one.
\<close>

definition odd_folder_chosen :: parameters where
  "odd_folder_chosen =
     out_fc_pth_update (entered ''/out.gdb/fc'')
       (pqt_pth_update (entered ''/data/odd'') (getParameterInfo example_env))"

definition sample_of_zero :: parameters where
  "sample_of_zero = smpl_cnt_update (entered 0) ready_to_run"

definition sample_switched_off :: parameters where
  "sample_switched_off = smpl_update (entered False) sample_of_zero"

text \<open>The geometry type set to POINT and to H3, with the folder and the output chosen.\<close>

definition point_geometry :: parameters where
  "point_geometry = geom_type_update (entered ''POINT'') output_chosen"

definition h3_geometry :: parameters where
  "h3_geometry = geom_type_update (entered ''H3'') output_chosen"

section \<open>Properties\<close>

subsection \<open>Integers as text: reading back what was printed\<close>

lemma digit_char_is_digit: "d < 10 \<Longrightarrow> is_digit (digit_char d)"
  by (simp add: is_digit_def digit_char_def)

lemma digit_char_value: "d < 10 \<Longrightarrow> (of_char (digit_char d) :: nat) - 48 = d"
  by (simp add: digit_char_def)

lemma parse_digits_append:
  "parse_digits acc (xs @ ys) =
     (case parse_digits acc xs of None \<Rightarrow> None | Some a \<Rightarrow> parse_digits a ys)"
  by (induction xs arbitrary: acc) auto

lemma parse_digits_str_nat: "parse_digits 0 (str_nat n) = Some n"
proof (induction n rule: str_nat.induct)
  case (1 n)
  show ?case
  proof (cases "n < 10")
    case True
    then show ?thesis
      by (subst str_nat.simps) (simp add: digit_char_is_digit digit_char_value)
  next
    case False
    then have "parse_digits 0 (str_nat (n div 10)) = Some (n div 10)"
      using "1.IH" by simp
    moreover have "n mod 10 < 10" by simp
    ultimately show ?thesis
      using False
      by (subst str_nat.simps)
         (simp add: parse_digits_append digit_char_is_digit digit_char_value)
  qed
qed

lemma str_nat_digits: "c \<in> set (str_nat n) \<Longrightarrow> is_digit c"
proof (induction n rule: str_nat.induct)
  case (1 n)
  show ?case
  proof (cases "n < 10")
    case True
    with "1.prems" show ?thesis
      by (subst (asm) str_nat.simps) (simp add: digit_char_is_digit)
  next
    case False
    have "n mod 10 < 10" by simp
    then have "is_digit (digit_char (n mod 10))" by (rule digit_char_is_digit)
    with False "1.prems" "1.IH" show ?thesis
      by (subst (asm) str_nat.simps) auto
  qed
qed

lemma str_nat_not_Nil: "str_nat n \<noteq> []"
  by (subst str_nat.simps) simp

lemma digit_not_space: "is_digit c \<Longrightarrow> \<not> is_space c"
  by (auto simp: is_digit_def is_space_def)

lemma digit_not_sign: "is_digit c \<Longrightarrow> c \<noteq> CHR ''-'' \<and> c \<noteq> CHR ''+''"
  by (auto simp: is_digit_def)

lemma strip_no_blanks:
  assumes "s \<noteq> []" "\<not> is_space (hd s)" "\<not> is_space (last s)"
  shows "strip s = s"
proof -
  have "dropWhile is_space s = s"
    using assms by (cases s) auto
  moreover have "dropWhile is_space (rev s) = rev s"
    using assms by (cases "rev s") (auto simp: hd_rev)
  ultimately show ?thesis by (simp add: strip_def)
qed

lemma parse_unsigned_str_nat: "parse_unsigned (str_nat n) = Inr (int n)"
  by (simp add: parse_unsigned_def str_nat_not_Nil parse_digits_str_nat)

lemma int_of_str_str_int: "int_of_str (str_int i) = Inr i"
proof -
  obtain c cs where s: "str_nat (nat \<bar>i\<bar>) = c # cs"
    using str_nat_not_Nil by (cases "str_nat (nat \<bar>i\<bar>)") auto
  have dig: "\<And>x. x \<in> set (c # cs) \<Longrightarrow> is_digit x"
    using str_nat_digits s by metis
  have c: "is_digit c" using dig by simp
  have l: "is_digit (last (c # cs))" using dig last_in_set by blast
  show ?thesis
  proof (cases "i < 0")
    case True
    have "strip (CHR ''-'' # c # cs) = CHR ''-'' # c # cs"
      using l digit_not_space by (intro strip_no_blanks) (auto simp: is_space_def)
    moreover have "nat (- i) = nat \<bar>i\<bar>" using True by simp
    ultimately show ?thesis
      using True s parse_unsigned_str_nat [of "nat \<bar>i\<bar>"]
      by (simp add: int_of_str_def str_int_def)
  next
    case False
    have "strip (c # cs) = c # cs"
      using c l digit_not_space by (intro strip_no_blanks) auto
    moreover have "nat i = nat \<bar>i\<bar>" using False by simp
    ultimately show ?thesis
      using False s c digit_not_sign parse_unsigned_str_nat [of "nat \<bar>i\<bar>"]
      by (simp add: int_of_str_def str_int_def)
  qed
qed

lemma execute_returns:
  assumes "val (out_fc_pth ps) = Some out"
    and "val (smpl ps) = Some True \<Longrightarrow> val (smpl_cnt ps) = Some n"
  shows "execute ps =
     Inr \<lparr>parquet_path = val (pqt_pth ps), output_feature_class = Path out,
          schema_file = map_option Path (val (schema_file_pth ps)),
          geometry_type = val (geom_type ps),
          parquet_partitions =
            not_none [val (pqt_prt_01 ps), val (pqt_prt_02 ps), val (pqt_prt_03 ps)],
          geometry_column =
            (if val (geom_type ps) = Some ''COORDINATES''
             then Coordinates (val (x_col ps)) (val (y_col ps))
             else if val (geom_type ps) = Some ''H3'' then Column (val (h3_col ps))
             else Column (val (geom_col ps))),
          spatial_reference = val (sptl_ref ps),
          sample_count = (if val (smpl ps) = Some True then Some n else None),
          build_spatial_index = val (build_idx ps)\<rparr>"
  using assms
  by (simp add: execute_def valueAsText_def valueAsText_long_def py_int_def py_Path_def
      int_of_str_str_int)

lemma not_none_spec: "map Some (not_none xs) = filter (\<lambda>v. v \<noteq> None) xs"
  by (induction xs) (auto simp: not_none_def)

subsection \<open>Choice lists, and the call made by execute\<close>

lemmas example_defs =
  example_env_def example_fs_def example_schema_def env_without_h3_def folder_chosen_def
  output_chosen_def partitions_chosen_def folder_cleared_def ready_to_run_def
  getParameterInfo_def Parameter_def entered_def emptied_def

text \<open>
  Claim C5, as amended. The geometry formats of Feature Class to Parquet are exactly WKB,
  WKT and XY, with WKB the default. The geometry types of Parquet to Feature Class are
  POINT, POLYLINE, POLYGON and COORDINATES in every environment, followed by H3 exactly
  when the module \<^verbatim>\<open>h3\<close> can be imported.
\<close>

theorem choice_lists:
  "filter_list (FeatureClassToParquet_getParameterInfo ! 2) = [''WKB'', ''WKT'', ''XY''] \<and>
   val (FeatureClassToParquet_getParameterInfo ! 2) = Some ''WKB'' \<and>
   filter_list (geom_type (getParameterInfo e)) =
     [''POINT'', ''POLYLINE'', ''POLYGON'', ''COORDINATES''] @ (if has_h3 e then [''H3''] else [])"
  by (simp add: FeatureClassToParquet_getParameterInfo_def getParameterInfo_def Parameter_def entered_def emptied_def)

text \<open>
  Claim C5 as stated fails: where \<^verbatim>\<open>h3\<close> cannot be imported, H3 is not among the
  geometry types.
\<close>

theorem h3_not_offered:
  "''H3'' \<notin> set (filter_list (geom_type (getParameterInfo env_without_h3)))"
  by (simp add: example_defs)

text \<open>
  Claim C9. With an output feature class given, \<open>execute\<close> makes its call, and the
  sample count of the call is \<^verbatim>\<open>None\<close> whenever the sample flag is not \<^verbatim>\<open>True\<close>,
  whatever the sample-count parameter holds, and the integer of the sample-count
  parameter whenever the flag is \<^verbatim>\<open>True\<close>.
\<close>

theorem execute_sample_count:
  assumes "val (out_fc_pth ps) \<noteq> None"
  shows "(val (smpl ps) \<noteq> Some True \<longrightarrow> (\<exists>c. execute ps = Inr c \<and> sample_count c = None)) \<and>
         (\<forall>n. val (smpl ps) = Some True \<and> val (smpl_cnt ps) = Some n \<longrightarrow>
            (\<exists>c. execute ps = Inr c \<and> sample_count c = Some n))"
proof -
  from assms obtain out where out: "val (out_fc_pth ps) = Some out" by auto
  show ?thesis
  proof (intro conjI impI allI)
    assume "val (smpl ps) \<noteq> Some True"
    then show "\<exists>c. execute ps = Inr c \<and> sample_count c = None"
      using execute_returns [OF out, of 0] by simp
  next
    fix n
    assume "val (smpl ps) = Some True \<and> val (smpl_cnt ps) = Some n"
    then show "\<exists>c. execute ps = Inr c \<and> sample_count c = Some n"
      using execute_returns [OF out, of n] by simp
  qed
qed

text \<open>
  Claim C9 at the example: a sample of 25 rows is asked for and forwarded.
\<close>

theorem execute_sample_count_witness:
  "val (out_fc_pth ready_to_run) \<noteq> None \<and> val (smpl ready_to_run) = Some True \<and>
   val (smpl_cnt ready_to_run) = Some 25 \<and>
   (\<exists>c. execute ready_to_run = Inr c \<and> sample_count c = Some 25)"
proof -
  have h: "val (out_fc_pth ready_to_run) \<noteq> None" by (simp add: example_defs)
  have s: "val (smpl ready_to_run) = Some True \<and> val (smpl_cnt ready_to_run) = Some 25"
    by (simp add: example_defs)
  show ?thesis using h s execute_sample_count [OF h] by blast
qed

text \<open>
  Claim C10. The partitions of the call are the values of the three partition levels in
  their order, the unset ones left out; the geometry column is the pair of the longitude
  and latitude columns for COORDINATES, the H3 column for H3, the geometry column
  otherwise.
\<close>

theorem execute_partitions_and_geometry:
  assumes "val (out_fc_pth ps) \<noteq> None"
    and "val (smpl ps) = Some True \<longrightarrow> val (smpl_cnt ps) \<noteq> None"
  shows "\<exists>c. execute ps = Inr c \<and>
           map Some (parquet_partitions c) =
             filter (\<lambda>v. v \<noteq> None) [val (pqt_prt_01 ps), val (pqt_prt_02 ps), val (pqt_prt_03 ps)] \<and>
           geometry_column c =
             (if val (geom_type ps) = Some ''COORDINATES''
              then Coordinates (val (x_col ps)) (val (y_col ps))
              else if val (geom_type ps) = Some ''H3'' then Column (val (h3_col ps))
              else Column (val (geom_col ps)))"
proof -
  from assms(1) obtain out where out: "val (out_fc_pth ps) = Some out" by auto
  obtain n where n: "val (smpl ps) = Some True \<Longrightarrow> val (smpl_cnt ps) = Some n"
    using assms(2) by (cases "val (smpl_cnt ps)") auto
  show ?thesis
    using execute_returns [OF out n] by (simp add: not_none_spec)
qed

text \<open>
  Claim C10 at the example: two partition levels and the coordinate columns.
\<close>

theorem execute_partitions_and_geometry_witness:
  "val (out_fc_pth ready_to_run) \<noteq> None \<and>
   val (smpl ready_to_run) = Some True \<and> val (smpl_cnt ready_to_run) \<noteq> None \<and>
   (\<exists>c. execute ready_to_run = Inr c \<and>
      parquet_partitions c = [''year=2020'', ''month=02''] \<and>
      geometry_column c = Coordinates (Some ''Longitude'') (Some ''lat''))"
proof -
  have h: "val (out_fc_pth ready_to_run) \<noteq> None" by (simp add: example_defs)
  have s: "val (smpl ready_to_run) = Some True \<longrightarrow> val (smpl_cnt ready_to_run) \<noteq> None"
    by (simp add: example_defs)
  have v: "val (pqt_prt_01 ready_to_run) = Some ''year=2020''"
    "val (pqt_prt_02 ready_to_run) = Some ''month=02''"
    "val (pqt_prt_03 ready_to_run) = None"
    "val (geom_type ready_to_run) = Some ''COORDINATES''"
    "val (x_col ready_to_run) = Some ''Longitude''"
    "val (y_col ready_to_run) = Some ''lat''"
    by (simp_all add: example_defs)
  from execute_partitions_and_geometry [OF h s] obtain c where
    "execute ready_to_run = Inr c"
    "map Some (parquet_partitions c) = [Some ''year=2020'', Some ''month=02'']"
    "geometry_column c = Coordinates (Some ''Longitude'') (Some ''lat'')"
    unfolding v by auto
  moreover have "val (smpl ready_to_run) = Some True \<and> val (smpl_cnt ready_to_run) \<noteq> None"
    by (simp add: example_defs)
  ultimately show ?thesis using h by (auto simp: map_eq_Cons_conv)
qed

text \<open>
  Claim C2 fails on the code. With the Parquet folder just chosen and no output feature
  class yet, \<open>updateParameters\<close> raises AttributeError; with a partition altered and
  the folder not, it raises UnboundLocalError.
\<close>

theorem updateParameters_raises:
  "updateParameters example_env folder_chosen = Inl AttributeError \<and>
   updateParameters example_env folder_cleared = Inl UnboundLocalError"
  by (simp add: updateParameters_def prepopulate_output_def locate_parquet_def
      partition_level_two_def example_defs)

subsection \<open>What updateParameters returns, block by block\<close>

lemma prepopulate_output_Inr:
  "prepopulate_output ps = Inr ps1 \<longleftrightarrow>
     ps1 = ps \<and> \<not> (altered (pqt_pth ps) \<and> val (out_fc_pth ps) = None)"
  by (auto simp: prepopulate_output_def)

lemma locate_parquet_Inr:
  "locate_parquet e ps = Inr (pp, ps2) \<longleftrightarrow>
     (if altered (pqt_pth ps) then
        (\<exists>s. val (pqt_pth ps) = Some s \<and> pp = Some (Path s) \<and>
           ps2 = ps\<lparr>pqt_pth :=
                      (if rglob e ''part-*.parquet'' (Path s) = []
                       then setErrorMessage part_file_message (pqt_pth ps) else pqt_pth ps),
                    pqt_prt_01 :=
                      set_partition_options (get_partition_lst e (Path s)) (pqt_prt_01 ps)\<rparr>)
      else pp = None \<and> ps2 = ps)"
  by (auto simp: locate_parquet_def py_Path_def valueAsText_def Let_def split: option.splits)

lemma partition_level_two_Inr:
  "partition_level_two e pp ps = Inr ps3 \<longleftrightarrow>
     (if altered (pqt_prt_01 ps) then
        (\<exists>p v. pp = Some p \<and> val (pqt_prt_01 ps) = Some v \<and>
           ps3 = ps\<lparr>pqt_prt_02 :=
                      set_partition_options (get_partition_lst e (joinpath p v))
                        (pqt_prt_02 ps)\<rparr>)
      else ps3 = ps)"
  by (auto simp: partition_level_two_def py_joinpath_def split: option.splits)

lemma partition_level_three_Inr:
  "partition_level_three e pp ps = Inr ps4 \<longleftrightarrow>
     (if altered (pqt_prt_02 ps) then
        (\<exists>p v1 v2. pp = Some p \<and> val (pqt_prt_01 ps) = Some v1 \<and> val (pqt_prt_02 ps) = Some v2 \<and>
           ps4 = ps\<lparr>pqt_prt_03 :=
                      set_partition_options
                        (get_partition_lst e (joinpath (joinpath p v1) v2))
                        (pqt_prt_03 ps)\<rparr>)
      else ps4 = ps)"
  by (auto simp: partition_level_three_def py_joinpath_def split: option.splits)

lemma read_columns_Inr:
  "read_columns e ps = Inr (d, ps5) \<longleftrightarrow>
     (if altered (pqt_pth ps) then
        (\<exists>s cols. val (pqt_pth ps) = Some s \<and> schema_names e s = Some cols \<and>
           d = search_defaults cols no_defaults \<and>
           ps5 = ps\<lparr>geom_col := (geom_col ps)\<lparr>filter_list := cols\<rparr>,
                    x_col := (x_col ps)\<lparr>filter_list := cols\<rparr>,
                    y_col := (y_col ps)\<lparr>filter_list := cols\<rparr>,
                    h3_col := (h3_col ps)\<lparr>filter_list := cols\<rparr>\<rparr>)
      else d = no_defaults \<and> ps5 = ps)"
  by (auto simp: read_columns_def valueAsText_def split: option.splits)

lemma find_schema_file_Inr:
  "find_schema_file e ps = Inr ps' \<Longrightarrow> \<exists>v. ps' = ps\<lparr>schema_file_pth := v\<rparr>"
  by (cases "valueAsText (pqt_pth ps)")
     (auto simp: find_schema_file_def py_Path_def split: if_splits list.splits
           intro: exI [of _ "schema_file_pth ps"])

lemma find_schema_file_returns:
  "altered (pqt_pth ps) \<longrightarrow> val (pqt_pth ps) \<noteq> None \<Longrightarrow> \<exists>ps'. find_schema_file e ps = Inr ps'"
  by (auto simp: find_schema_file_def py_Path_def valueAsText_def split: list.splits)

lemma updateParameters_Inr_iff:
  "updateParameters e ps = Inr ps' \<longleftrightarrow>
     (\<exists>pp ps2 ps3 ps4 d ps5.
        prepopulate_output ps = Inr ps \<and>
        locate_parquet e ps = Inr (pp, ps2) \<and>
        partition_level_two e pp ps2 = Inr ps3 \<and>
        partition_level_three e pp ps3 = Inr ps4 \<and>
        read_columns e (check_sample ps4) = Inr (d, ps5) \<and>
        find_schema_file e (required_columns d ps5) = Inr ps')"
proof (cases "prepopulate_output ps")
  case (Inl err)
  then show ?thesis by (simp add: updateParameters_def)
next
  case (Inr ps1)
  then have "ps1 = ps" by (simp add: prepopulate_output_Inr)
  with Inr show ?thesis
    by (auto simp: updateParameters_def split: sum.splits)
qed

lemma set_partition_options_keeps [simp]:
  "val (set_partition_options lst p) = val p"
  "altered (set_partition_options lst p) = altered p"
  "message (set_partition_options lst p) = message p"
  by (simp_all add: set_partition_options_def)

lemma setErrorMessage_keeps [simp]:
  "val (setErrorMessage m p) = val p"
  "altered (setErrorMessage m p) = altered p"
  "enabled (setErrorMessage m p) = enabled p"
  "parameterType (setErrorMessage m p) = parameterType p"
  "filter_list (setErrorMessage m p) = filter_list p"
  "message (setErrorMessage m p) = Some m"
  by (simp_all add: setErrorMessage_def)

lemma check_sample_frame [simp]:
  "pqt_pth (check_sample ps) = pqt_pth ps"
  "pqt_prt_01 (check_sample ps) = pqt_prt_01 ps"
  "pqt_prt_02 (check_sample ps) = pqt_prt_02 ps"
  "pqt_prt_03 (check_sample ps) = pqt_prt_03 ps"
  "sptl_ref (check_sample ps) = sptl_ref ps"
  "out_fc_pth (check_sample ps) = out_fc_pth ps"
  "geom_col (check_sample ps) = geom_col ps"
  "geom_type (check_sample ps) = geom_type ps"
  "x_col (check_sample ps) = x_col ps"
  "y_col (check_sample ps) = y_col ps"
  "h3_col (check_sample ps) = h3_col ps"
  "build_idx (check_sample ps) = build_idx ps"
  "smpl (check_sample ps) = smpl ps"
  "schema_file_pth (check_sample ps) = schema_file_pth ps"
  by (simp_all add: check_sample_def)

lemma required_columns_frame [simp]:
  "pqt_pth (required_columns d ps) = pqt_pth ps"
  "pqt_prt_01 (required_columns d ps) = pqt_prt_01 ps"
  "pqt_prt_02 (required_columns d ps) = pqt_prt_02 ps"
  "pqt_prt_03 (required_columns d ps) = pqt_prt_03 ps"
  "sptl_ref (required_columns d ps) = sptl_ref ps"
  "out_fc_pth (required_columns d ps) = out_fc_pth ps"
  "geom_type (required_columns d ps) = geom_type ps"
  "build_idx (required_columns d ps) = build_idx ps"
  "smpl (required_columns d ps) = smpl ps"
  "smpl_cnt (required_columns d ps) = smpl_cnt ps"
  "schema_file_pth (required_columns d ps) = schema_file_pth ps"
  by (simp_all add: required_columns_def)

lemma updateParameters_returns:
  assumes "runs_without_exception e ps"
  shows "\<exists>ps'. updateParameters e ps = Inr ps'"
proof -
  have pre: "prepopulate_output ps = Inr ps"
    using assms by (auto simp: prepopulate_output_Inr runs_without_exception_def)
  obtain pp ps2 where loc: "locate_parquet e ps = Inr (pp, ps2)"
    using assms
    by (cases "altered (pqt_pth ps)")
       (auto simp: locate_parquet_Inr runs_without_exception_def split: option.splits)
  have keep2: "altered (pqt_pth ps2) = altered (pqt_pth ps)" "val (pqt_pth ps2) = val (pqt_pth ps)"
    "altered (pqt_prt_01 ps2) = altered (pqt_prt_01 ps)" "val (pqt_prt_01 ps2) = val (pqt_prt_01 ps)"
    "pqt_prt_02 ps2 = pqt_prt_02 ps" "pp = None \<longleftrightarrow> \<not> altered (pqt_pth ps)"
    using loc by (auto simp: locate_parquet_Inr split: if_splits)
  obtain ps3 where two: "partition_level_two e pp ps2 = Inr ps3"
    using assms keep2
    by (cases "altered (pqt_prt_01 ps)")
       (auto simp: partition_level_two_Inr runs_without_exception_def)
  have keep3: "pqt_pth ps3 = pqt_pth ps2" "pqt_prt_01 ps3 = pqt_prt_01 ps2"
    "altered (pqt_prt_02 ps3) = altered (pqt_prt_02 ps2)" "val (pqt_prt_02 ps3) = val (pqt_prt_02 ps2)"
    using two by (auto simp: partition_level_two_Inr split: if_splits)
  obtain ps4 where three: "partition_level_three e pp ps3 = Inr ps4"
    using assms keep2 keep3
    by (cases "altered (pqt_prt_02 ps)")
       (auto simp: partition_level_three_Inr runs_without_exception_def)
  have keep4: "pqt_pth ps4 = pqt_pth ps3"
    using three by (auto simp: partition_level_three_Inr split: if_splits)
  obtain d ps5 where cols: "read_columns e (check_sample ps4) = Inr (d, ps5)"
    using assms keep2 keep3 keep4
    by (cases "altered (pqt_pth ps)")
       (auto simp: read_columns_Inr runs_without_exception_def split: option.splits)
  have keep5: "pqt_pth ps5 = pqt_pth ps4"
    using cols by (auto simp: read_columns_Inr split: if_splits)
  have "altered (pqt_pth (required_columns d ps5)) \<longrightarrow> val (pqt_pth (required_columns d ps5)) \<noteq> None"
    using assms keep2 keep3 keep4 keep5
    by (auto simp: runs_without_exception_def split: option.splits)
  then obtain ps' where "find_schema_file e (required_columns d ps5) = Inr ps'"
    using find_schema_file_returns by blast
  with pre loc two three cols show ?thesis
    unfolding updateParameters_Inr_iff by blast
qed

lemma updateParameters_Inr_runs:
  assumes "updateParameters e ps = Inr ps'"
  shows "runs_without_exception e ps"
proof -
  from assms obtain pp ps2 ps3 ps4 d ps5 where
    pre: "prepopulate_output ps = Inr ps" and
    loc: "locate_parquet e ps = Inr (pp, ps2)" and
    two: "partition_level_two e pp ps2 = Inr ps3" and
    three: "partition_level_three e pp ps3 = Inr ps4" and
    cols: "read_columns e (check_sample ps4) = Inr (d, ps5)"
    unfolding updateParameters_Inr_iff by blast
  have keep2: "altered (pqt_pth ps2) = altered (pqt_pth ps)" "val (pqt_pth ps2) = val (pqt_pth ps)"
    "altered (pqt_prt_01 ps2) = altered (pqt_prt_01 ps)" "val (pqt_prt_01 ps2) = val (pqt_prt_01 ps)"
    "pqt_prt_02 ps2 = pqt_prt_02 ps" "pp = None \<longleftrightarrow> \<not> altered (pqt_pth ps)"
    using loc by (auto simp: locate_parquet_Inr split: if_splits)
  have keep3: "pqt_pth ps3 = pqt_pth ps2" "pqt_prt_01 ps3 = pqt_prt_01 ps2"
    "altered (pqt_prt_02 ps3) = altered (pqt_prt_02 ps2)" "val (pqt_prt_02 ps3) = val (pqt_prt_02 ps2)"
    using two by (auto simp: partition_level_two_Inr split: if_splits)
  have keep4: "pqt_pth ps4 = pqt_pth ps3"
    using three by (auto simp: partition_level_three_Inr split: if_splits)
  have a: "altered (pqt_pth ps) \<longrightarrow> val (out_fc_pth ps) \<noteq> None"
    using pre by (auto simp: prepopulate_output_Inr)
  have b: "altered (pqt_pth ps) \<longrightarrow>
             (case val (pqt_pth ps) of None \<Rightarrow> False | Some s \<Rightarrow> schema_names e s \<noteq> None)"
    using cols keep2 keep3 keep4 by (auto simp: read_columns_Inr split: if_splits)
  have c: "altered (pqt_prt_01 ps) \<longrightarrow> altered (pqt_pth ps) \<and> val (pqt_prt_01 ps) \<noteq> None"
    using two keep2 by (auto simp: partition_level_two_Inr split: if_splits)
  have d: "altered (pqt_prt_02 ps) \<longrightarrow>
             altered (pqt_pth ps) \<and> val (pqt_prt_01 ps) \<noteq> None \<and> val (pqt_prt_02 ps) \<noteq> None"
    using three keep2 keep3 by (auto simp: partition_level_three_Inr split: if_splits)
  show ?thesis
    using a b c d by (simp add: runs_without_exception_def)
qed

lemma updateParameters_chain:
  assumes "updateParameters e ps = Inr ps'"
  obtains ps4 d ps5 v where
    "pqt_pth ps4 =
       (if altered (pqt_pth ps) \<and>
           rglob e ''part-*.parquet'' (Path (the (val (pqt_pth ps)))) = []
        then setErrorMessage part_file_message (pqt_pth ps) else pqt_pth ps)"
    "pqt_prt_01 ps4 =
       (if altered (pqt_pth ps)
        then set_partition_options
               (get_partition_lst e (Path (the (val (pqt_pth ps))))) (pqt_prt_01 ps)
        else pqt_prt_01 ps)"
    "pqt_prt_02 ps4 =
       (if altered (pqt_prt_01 ps)
        then set_partition_options
               (get_partition_lst e
                  (joinpath (Path (the (val (pqt_pth ps)))) (the (val (pqt_prt_01 ps)))))
               (pqt_prt_02 ps)
        else pqt_prt_02 ps)"
    "pqt_prt_03 ps4 =
       (if altered (pqt_prt_02 ps)
        then set_partition_options
               (get_partition_lst e
                  (joinpath (joinpath (Path (the (val (pqt_pth ps)))) (the (val (pqt_prt_01 ps))))
                     (the (val (pqt_prt_02 ps)))))
               (pqt_prt_03 ps)
        else pqt_prt_03 ps)"
    "smpl ps4 = smpl ps \<and> smpl_cnt ps4 = smpl_cnt ps \<and> geom_type ps4 = geom_type ps \<and>
     geom_col ps4 = geom_col ps \<and> x_col ps4 = x_col ps \<and> y_col ps4 = y_col ps \<and>
     h3_col ps4 = h3_col ps"
    "read_columns e (check_sample ps4) = Inr (d, ps5)"
    "ps' = (required_columns d ps5)\<lparr>schema_file_pth := v\<rparr>"
proof -
  from assms obtain pp ps2 ps3 ps4 d ps5 where
    loc: "locate_parquet e ps = Inr (pp, ps2)" and
    two: "partition_level_two e pp ps2 = Inr ps3" and
    three: "partition_level_three e pp ps3 = Inr ps4" and
    cols: "read_columns e (check_sample ps4) = Inr (d, ps5)" and
    fin: "find_schema_file e (required_columns d ps5) = Inr ps'"
    unfolding updateParameters_Inr_iff by blast
  have run: "runs_without_exception e ps"
    using assms by (rule updateParameters_Inr_runs)
  have p2: "ps2 = ps
       \<lparr>pqt_pth :=
          (if altered (pqt_pth ps) \<and>
              rglob e ''part-*.parquet'' (Path (the (val (pqt_pth ps)))) = []
           then setErrorMessage part_file_message (pqt_pth ps) else pqt_pth ps),
        pqt_prt_01 :=
          (if altered (pqt_pth ps)
           then set_partition_options
                  (get_partition_lst e (Path (the (val (pqt_pth ps))))) (pqt_prt_01 ps)
           else pqt_prt_01 ps)\<rparr>"
    and pp: "altered (pqt_pth ps) \<Longrightarrow> pp = Some (Path (the (val (pqt_pth ps))))"
    using loc by (auto simp: locate_parquet_Inr split: if_splits)
  have p3: "ps3 = ps2
       \<lparr>pqt_prt_02 :=
          (if altered (pqt_prt_01 ps)
           then set_partition_options
                  (get_partition_lst e
                     (joinpath (Path (the (val (pqt_pth ps)))) (the (val (pqt_prt_01 ps)))))
                  (pqt_prt_02 ps)
           else pqt_prt_02 ps)\<rparr>"
  proof (cases "altered (pqt_prt_01 ps)")
    case True
    then have "altered (pqt_pth ps)" using run by (simp add: runs_without_exception_def)
    with True two pp show ?thesis
      by (auto simp: partition_level_two_Inr p2)
  next
    case False
    with two show ?thesis
      by (auto simp: partition_level_two_Inr p2)
  qed
  have p4: "ps4 = ps3
       \<lparr>pqt_prt_03 :=
          (if altered (pqt_prt_02 ps)
           then set_partition_options
                  (get_partition_lst e
                     (joinpath (joinpath (Path (the (val (pqt_pth ps)))) (the (val (pqt_prt_01 ps))))
                        (the (val (pqt_prt_02 ps)))))
                  (pqt_prt_03 ps)
           else pqt_prt_03 ps)\<rparr>"
  proof (cases "altered (pqt_prt_02 ps)")
    case True
    then have "altered (pqt_pth ps)" using run by (simp add: runs_without_exception_def)
    with True three pp show ?thesis
      by (auto simp: partition_level_three_Inr p2 p3)
  next
    case False
    with three show ?thesis
      by (auto simp: partition_level_three_Inr p2 p3)
  qed
  obtain v where v: "ps' = (required_columns d ps5)\<lparr>schema_file_pth := v\<rparr>"
    using find_schema_file_Inr [OF fin] by blast
  show ?thesis
    by (rule that [OF _ _ _ _ _ cols v]) (simp_all add: p4 p3 p2)
qed

lemma check_sample_smpl_cnt_cong:
  "smpl ps = smpl qs \<Longrightarrow> smpl_cnt ps = smpl_cnt qs \<Longrightarrow>
     smpl_cnt (check_sample ps) = smpl_cnt (check_sample qs)"
  by (simp add: check_sample_def)

lemma updateParameters_fields:
  assumes "updateParameters e ps = Inr ps'"
  shows "pqt_pth ps' =
          (if altered (pqt_pth ps) \<and>
              rglob e ''part-*.parquet'' (Path (the (val (pqt_pth ps)))) = []
           then setErrorMessage part_file_message (pqt_pth ps) else pqt_pth ps)"
    and "pqt_prt_01 ps' =
          (if altered (pqt_pth ps)
           then set_partition_options
                  (get_partition_lst e (Path (the (val (pqt_pth ps))))) (pqt_prt_01 ps)
           else pqt_prt_01 ps)"
    and "pqt_prt_02 ps' =
          (if altered (pqt_prt_01 ps)
           then set_partition_options
                  (get_partition_lst e
                     (joinpath (Path (the (val (pqt_pth ps)))) (the (val (pqt_prt_01 ps)))))
                  (pqt_prt_02 ps)
           else pqt_prt_02 ps)"
    and "pqt_prt_03 ps' =
          (if altered (pqt_prt_02 ps)
           then set_partition_options
                  (get_partition_lst e
                     (joinpath (joinpath (Path (the (val (pqt_pth ps)))) (the (val (pqt_prt_01 ps))))
                        (the (val (pqt_prt_02 ps)))))
                  (pqt_prt_03 ps)
           else pqt_prt_03 ps)"
    and "smpl_cnt ps' = smpl_cnt (check_sample ps)"
proof -
  from assms obtain ps4 d ps5 v where
    p4: "pqt_pth ps4 =
       (if altered (pqt_pth ps) \<and>
           rglob e ''part-*.parquet'' (Path (the (val (pqt_pth ps)))) = []
        then setErrorMessage part_file_message (pqt_pth ps) else pqt_pth ps)"
    "pqt_prt_01 ps4 =
       (if altered (pqt_pth ps)
        then set_partition_options
               (get_partition_lst e (Path (the (val (pqt_pth ps))))) (pqt_prt_01 ps)
        else pqt_prt_01 ps)"
    "pqt_prt_02 ps4 =
       (if altered (pqt_prt_01 ps)
        then set_partition_options
               (get_partition_lst e
                  (joinpath (Path (the (val (pqt_pth ps)))) (the (val (pqt_prt_01 ps)))))
               (pqt_prt_02 ps)
        else pqt_prt_02 ps)"
    "pqt_prt_03 ps4 =
       (if altered (pqt_prt_02 ps)
        then set_partition_options
               (get_partition_lst e
                  (joinpath (joinpath (Path (the (val (pqt_pth ps)))) (the (val (pqt_prt_01 ps))))
                     (the (val (pqt_prt_02 ps)))))
               (pqt_prt_03 ps)
        else pqt_prt_03 ps)"
    and fr: "smpl ps4 = smpl ps \<and> smpl_cnt ps4 = smpl_cnt ps \<and> geom_type ps4 = geom_type ps \<and>
     geom_col ps4 = geom_col ps \<and> x_col ps4 = x_col ps \<and> y_col ps4 = y_col ps \<and>
     h3_col ps4 = h3_col ps"
    and cols: "read_columns e (check_sample ps4) = Inr (d, ps5)"
    and fin: "ps' = (required_columns d ps5)\<lparr>schema_file_pth := v\<rparr>"
    by (rule updateParameters_chain)
  have k: "pqt_pth ps5 = pqt_pth ps4" "pqt_prt_01 ps5 = pqt_prt_01 ps4"
    "pqt_prt_02 ps5 = pqt_prt_02 ps4" "pqt_prt_03 ps5 = pqt_prt_03 ps4"
    "smpl_cnt ps5 = smpl_cnt (check_sample ps4)"
    using cols by (auto simp: read_columns_Inr split: if_splits)
  have s: "smpl_cnt (check_sample ps4) = smpl_cnt (check_sample ps)"
    by (rule check_sample_smpl_cnt_cong) (simp_all add: fr)
  show "pqt_pth ps' =
          (if altered (pqt_pth ps) \<and>
              rglob e ''part-*.parquet'' (Path (the (val (pqt_pth ps)))) = []
           then setErrorMessage part_file_message (pqt_pth ps) else pqt_pth ps)"
    using p4(1) by (simp add: fin k)
  show "pqt_prt_01 ps' =
          (if altered (pqt_pth ps)
           then set_partition_options
                  (get_partition_lst e (Path (the (val (pqt_pth ps))))) (pqt_prt_01 ps)
           else pqt_prt_01 ps)"
    using p4(2) by (simp add: fin k)
  show "pqt_prt_02 ps' =
          (if altered (pqt_prt_01 ps)
           then set_partition_options
                  (get_partition_lst e
                     (joinpath (Path (the (val (pqt_pth ps)))) (the (val (pqt_prt_01 ps)))))
                  (pqt_prt_02 ps)
           else pqt_prt_02 ps)"
    using p4(3) by (simp add: fin k)
  show "pqt_prt_03 ps' =
          (if altered (pqt_prt_02 ps)
           then set_partition_options
                  (get_partition_lst e
                     (joinpath (joinpath (Path (the (val (pqt_pth ps)))) (the (val (pqt_prt_01 ps))))
                        (the (val (pqt_prt_02 ps)))))
                  (pqt_prt_03 ps)
           else pqt_prt_03 ps)"
    using p4(4) by (simp add: fin k)
  show "smpl_cnt ps' = smpl_cnt (check_sample ps)"
    by (simp add: fin k s)
qed

lemma updateParameters_columns:
  assumes "updateParameters e ps = Inr ps'"
  obtains d qs where
    "if altered (pqt_pth ps)
     then \<exists>s cols. val (pqt_pth ps) = Some s \<and> schema_names e s = Some cols \<and>
            d = search_defaults cols no_defaults \<and>
            geom_col qs = (geom_col ps)\<lparr>filter_list := cols\<rparr> \<and>
            x_col qs = (x_col ps)\<lparr>filter_list := cols\<rparr> \<and>
            y_col qs = (y_col ps)\<lparr>filter_list := cols\<rparr> \<and>
            h3_col qs = (h3_col ps)\<lparr>filter_list := cols\<rparr>
     else d = no_defaults \<and> geom_col qs = geom_col ps \<and> x_col qs = x_col ps \<and>
          y_col qs = y_col ps \<and> h3_col qs = h3_col ps"
    "geom_type qs = geom_type ps" "altered (pqt_pth qs) = altered (pqt_pth ps)"
    "geom_col ps' = geom_col (required_columns d qs)"
    "x_col ps' = x_col (required_columns d qs)"
    "y_col ps' = y_col (required_columns d qs)"
    "h3_col ps' = h3_col (required_columns d qs)"
proof -
  from assms obtain ps4 d ps5 v where
    pq: "pqt_pth ps4 =
       (if altered (pqt_pth ps) \<and>
           rglob e ''part-*.parquet'' (Path (the (val (pqt_pth ps)))) = []
        then setErrorMessage part_file_message (pqt_pth ps) else pqt_pth ps)"
    and fr: "smpl ps4 = smpl ps \<and> smpl_cnt ps4 = smpl_cnt ps \<and> geom_type ps4 = geom_type ps \<and>
     geom_col ps4 = geom_col ps \<and> x_col ps4 = x_col ps \<and> y_col ps4 = y_col ps \<and>
     h3_col ps4 = h3_col ps"
    and cols: "read_columns e (check_sample ps4) = Inr (d, ps5)"
    and fin: "ps' = (required_columns d ps5)\<lparr>schema_file_pth := v\<rparr>"
    by (rule updateParameters_chain)
  have a: "altered (pqt_pth ps4) = altered (pqt_pth ps)" "val (pqt_pth ps4) = val (pqt_pth ps)"
    using pq by auto
  show ?thesis
  proof (rule that [of d ps5])
    show "if altered (pqt_pth ps)
     then \<exists>s cols. val (pqt_pth ps) = Some s \<and> schema_names e s = Some cols \<and>
            d = search_defaults cols no_defaults \<and>
            geom_col ps5 = (geom_col ps)\<lparr>filter_list := cols\<rparr> \<and>
            x_col ps5 = (x_col ps)\<lparr>filter_list := cols\<rparr> \<and>
            y_col ps5 = (y_col ps)\<lparr>filter_list := cols\<rparr> \<and>
            h3_col ps5 = (h3_col ps)\<lparr>filter_list := cols\<rparr>
     else d = no_defaults \<and> geom_col ps5 = geom_col ps \<and> x_col ps5 = x_col ps \<and>
          y_col ps5 = y_col ps \<and> h3_col ps5 = h3_col ps"
      using cols a fr by (auto simp: read_columns_Inr split: if_splits)
    show "geom_type ps5 = geom_type ps" "altered (pqt_pth ps5) = altered (pqt_pth ps)"
      using cols a fr by (auto simp: read_columns_Inr split: if_splits)
  qed (simp_all add: fin)
qed

subsection \<open>The file system\<close>

lemma find_in_set: "find P xs = Some x \<Longrightarrow> x \<in> set xs"
  by (induction xs) (auto split: if_splits)

lemma find_distinct_name:
  "distinct (map node_name es) \<Longrightarrow> m \<in> set es \<Longrightarrow>
     find (\<lambda>x. node_name x = node_name m) es = Some m"
  by (induction es) auto

lemma resolve_wf:
  "wf_node n \<Longrightarrow> \<forall>a \<in> set anc. wf_node a \<Longrightarrow> resolve anc n p = Some m \<Longrightarrow> wf_node m"
proof (induction anc n p rule: resolve.induct)
  case (1 anc n)
  then show ?case by simp
next
  case (2 anc nm c cs)
  then show ?case by simp
next
  case (3 anc nm es c cs)
  show ?case
  proof (cases "c = ''..''")
    case True
    with 3 show ?thesis by (cases anc) auto
  next
    case False
    with "3.prems" obtain n' where f: "find (\<lambda>n. node_name n = c) es = Some n'"
      and r: "resolve (Dir nm es # anc) n' cs = Some m"
      by (auto split: option.splits)
    from f have "n' \<in> set es" by (rule find_in_set)
    with "3.prems" have "wf_node n'" by simp
    with "3.IH"(3) [OF False f] "3.prems" r show ?thesis by simp
  qed
qed

lemma resolve_snoc:
  "resolve anc n p = Some (Dir nm es) \<Longrightarrow> c \<noteq> ''..'' \<Longrightarrow>
     resolve anc n (p @ [c]) = find (\<lambda>m. node_name m = c) es"
proof (induction anc n p rule: resolve.induct)
  case (1 anc n)
  then show ?case by (auto split: option.splits)
next
  case (2 anc nm' c' cs)
  then show ?case by simp
next
  case (3 anc nm' es' c' cs)
  then show ?case
    by (cases anc) (auto split: option.splits if_splits)
qed

lemma fnmatch_star: "fnmatch ''*'' nm"
  by (induction nm) auto

lemma lower_star: "lower ''*'' = ''*''"
  by code_simp

lemma path_match_star: "path_match ic ''*'' nm"
  by (simp add: path_match_def lower_star fnmatch_star)

lemma rfind_bound: "rfind c s = Some i \<Longrightarrow> i < length s"
  by (induction s arbitrary: i) (auto split: option.splits if_splits)

lemma stem_of_name_not_Nil: "nm \<noteq> [] \<Longrightarrow> stem_of_name nm \<noteq> []"
  by (auto simp: stem_of_name_def split: option.splits)

lemma stem_snoc: "stem (p @ [nm]) = stem_of_name nm"
  by (simp add: stem_def)

lemma get_partition_lst_spec:
  assumes "wf_node (fs e)"
  shows "get_partition_lst e p = child_directory_stems (fs e) p"
proof (cases "\<exists>nm es. resolve [] (fs e) p = Some (Dir nm es)")
  case False
  then have "scandir (fs e) p = []"
    by (auto simp: scandir_def split: option.splits fsnode.splits)
  then show ?thesis
    by (simp add: get_partition_lst_def child_directory_stems_def glob_def)
next
  case True
  then obtain nm es where r: "resolve [] (fs e) p = Some (Dir nm es)" by blast
  then have sc: "scandir (fs e) p = es" by (simp add: scandir_def)
  have wf: "wf_node (Dir nm es)"
    using resolve_wf [OF assms _ r] by simp
  have ent: "is_dir (fs e) (p @ [node_name n]) = node_is_dir n \<and> stem (p @ [node_name n]) \<noteq> []"
    if "n \<in> set es" for n
  proof -
    from wf that have v: "valid_name (node_name n)" and d: "distinct (map node_name es)"
      by auto
    then have "resolve [] (fs e) (p @ [node_name n]) = Some n"
      using resolve_snoc [OF r] find_distinct_name [OF d that]
      by (simp add: valid_name_def)
    moreover have "stem (p @ [node_name n]) \<noteq> []"
      using v by (simp add: stem_snoc stem_of_name_not_Nil valid_name_def)
    ultimately show ?thesis by (simp add: is_dir_def)
  qed
  have "filter (\<lambda>n. is_dir (fs e) (p @ [node_name n]) \<and> stem (p @ [node_name n]) \<noteq> []) es
          = filter node_is_dir es"
    using ent by (intro filter_cong) auto
  then show ?thesis
    by (simp add: get_partition_lst_def child_directory_stems_def glob_def sc path_match_star
        filter_map comp_def stem_snoc)
qed

lemma rglob_node_empty:
  "rglob_node ic pat p n = [] \<longleftrightarrow>
     \<not> (\<exists>m \<in> set (descendants n). path_match ic pat (node_name m))"
proof (induction ic pat p n rule: rglob_node.induct)
  case (1 ic pat p nm)
  then show ?case by simp
next
  case (2 ic pat p nm es)
  have "filter (\<lambda>n. path_match ic pat (node_name n)) es = [] \<longleftrightarrow>
          \<not> (\<exists>m \<in> set es. path_match ic pat (node_name m))"
    by (auto simp: filter_empty_conv)
  moreover have "(\<forall>n \<in> set es. rglob_node ic pat (p @ [node_name n]) n = []) \<longleftrightarrow>
          \<not> (\<exists>n \<in> set es. \<exists>m \<in> set (descendants n). path_match ic pat (node_name m))"
    using 2 by blast
  ultimately show ?case by auto
qed

lemma rglob_empty:
  "rglob e pat p = [] \<longleftrightarrow>
     \<not> (\<exists>m \<in> set (entries_below (fs e) p). path_match (ignore_case e) pat (node_name m))"
  by (auto simp: rglob_def entries_below_def rglob_node_empty split: option.splits)

subsection \<open>The search for default columns\<close>

lemma find_append:
  "find P (xs @ ys) = (case find P xs of None \<Rightarrow> find P ys | Some x \<Rightarrow> Some x)"
  by (induction xs) auto

lemma search_defaults_geom:
  "geom_col_value (search_defaults cols d) =
     (case find (\<lambda>c. sublist ''wkb'' (lower c)) (rev cols) of
        None \<Rightarrow> geom_col_value d | Some c \<Rightarrow> Some c)"
  by (induction cols arbitrary: d)
     (auto simp: default_step_def find_append Let_def split: option.splits)

lemma search_defaults_x:
  "x_col_value (search_defaults cols d) =
     (case find (\<lambda>c. lower c \<in> {''x'', ''lon'', ''longitude''}) (rev cols) of
        None \<Rightarrow> x_col_value d | Some c \<Rightarrow> Some c)"
  by (induction cols arbitrary: d)
     (auto simp: default_step_def find_append Let_def split: option.splits)

lemma search_defaults_y:
  "y_col_value (search_defaults cols d) =
     (case find (\<lambda>c. lower c \<in> {''y'', ''lat'', ''latitude''}) (rev cols) of
        None \<Rightarrow> y_col_value d | Some c \<Rightarrow> Some c)"
  by (induction cols arbitrary: d)
     (auto simp: default_step_def find_append Let_def split: option.splits)

lemma search_defaults_h3:
  "h3_col_value (search_defaults cols d) =
     (case find (\<lambda>c. prefix ''h3'' (lower c)) (rev cols) of
        None \<Rightarrow> h3_col_value d | Some c \<Rightarrow> Some c)"
  by (induction cols arbitrary: d)
     (auto simp: default_step_def find_append Let_def split: option.splits)

subsection \<open>Partition dropdowns and validation messages\<close>

text \<open>
  Claim C1. Let the Parquet folder be supplied (altered, with a value), the file system be
  well formed, and \<open>updateParameters\<close> run from a state from which it returns. Then it
  returns, and afterwards: if the folder has child directories, the first partition
  dropdown is enabled and lists exactly their stems; if the first (second) partition
  level has been set, and the folder joined with the values chosen so far has child
  directories, the second (third) dropdown is enabled and lists exactly their stems.
  A partition level "has been set" when the host reports it altered and it has a value.
\<close>

theorem partition_dropdowns:
  assumes "runs_without_exception e ps" and "wf_node (fs e)"
    and "altered (pqt_pth ps)" and "val (pqt_pth ps) = Some folder"
  shows "\<exists>ps'. updateParameters e ps = Inr ps' \<and>
     (child_directory_stems (fs e) (Path folder) \<noteq> [] \<longrightarrow>
        enabled (pqt_prt_01 ps') \<and> filter_type (pqt_prt_01 ps') = ''ValueList'' \<and>
        filter_list (pqt_prt_01 ps') = child_directory_stems (fs e) (Path folder)) \<and>
     (\<forall>v1. altered (pqt_prt_01 ps) \<and> val (pqt_prt_01 ps) = Some v1 \<and>
        child_directory_stems (fs e) (joinpath (Path folder) v1) \<noteq> [] \<longrightarrow>
        enabled (pqt_prt_02 ps') \<and> filter_type (pqt_prt_02 ps') = ''ValueList'' \<and>
        filter_list (pqt_prt_02 ps') =
          child_directory_stems (fs e) (joinpath (Path folder) v1)) \<and>
     (\<forall>v1 v2. altered (pqt_prt_02 ps) \<and> val (pqt_prt_01 ps) = Some v1 \<and>
        val (pqt_prt_02 ps) = Some v2 \<and>
        child_directory_stems (fs e) (joinpath (joinpath (Path folder) v1) v2) \<noteq> [] \<longrightarrow>
        enabled (pqt_prt_03 ps') \<and> filter_type (pqt_prt_03 ps') = ''ValueList'' \<and>
        filter_list (pqt_prt_03 ps') =
          child_directory_stems (fs e) (joinpath (joinpath (Path folder) v1) v2))"
proof -
  from assms(1) obtain ps' where r: "updateParameters e ps = Inr ps'"
    using updateParameters_returns by blast
  note f = updateParameters_fields(2-4) [OF r]
  note g = get_partition_lst_spec [OF assms(2)]
  have opts: "lst \<noteq> [] \<Longrightarrow>
      enabled (set_partition_options lst p) \<and>
      filter_type (set_partition_options lst p) = ''ValueList'' \<and>
      filter_list (set_partition_options lst p) = lst" for lst and p :: "string parameter"
    by (simp add: set_partition_options_def)
  have one: "child_directory_stems (fs e) (Path folder) \<noteq> [] \<longrightarrow>
        enabled (pqt_prt_01 ps') \<and> filter_type (pqt_prt_01 ps') = ''ValueList'' \<and>
        filter_list (pqt_prt_01 ps') = child_directory_stems (fs e) (Path folder)"
    using f(1) assms(3,4) by (simp add: g opts)
  have two: "enabled (pqt_prt_02 ps') \<and> filter_type (pqt_prt_02 ps') = ''ValueList'' \<and>
        filter_list (pqt_prt_02 ps') = child_directory_stems (fs e) (joinpath (Path folder) v1)"
    if "altered (pqt_prt_01 ps)" "val (pqt_prt_01 ps) = Some v1"
      "child_directory_stems (fs e) (joinpath (Path folder) v1) \<noteq> []" for v1
    using f(2) assms(4) that by (simp add: g opts)
  have three: "enabled (pqt_prt_03 ps') \<and> filter_type (pqt_prt_03 ps') = ''ValueList'' \<and>
        filter_list (pqt_prt_03 ps') =
          child_directory_stems (fs e) (joinpath (joinpath (Path folder) v1) v2)"
    if "altered (pqt_prt_02 ps)" "val (pqt_prt_01 ps) = Some v1" "val (pqt_prt_02 ps) = Some v2"
      "child_directory_stems (fs e) (joinpath (joinpath (Path folder) v1) v2) \<noteq> []" for v1 v2
    using f(3) assms(4) that by (simp add: g opts)
  show ?thesis
    using r one two three by blast
qed

lemma example_runs:
  "runs_without_exception example_env output_chosen"
  "runs_without_exception example_env partitions_chosen"
  "runs_without_exception example_env ready_to_run"
  by (simp_all add: runs_without_exception_def example_defs)

lemma example_wf: "wf_node (fs example_env)"
  by (simp add: example_defs valid_name_def)

lemma example_paths:
  "Path ''/data/pq'' = [''data'', ''pq'']"
  "joinpath [''data'', ''pq''] ''year=2020'' = [''data'', ''pq'', ''year=2020'']"
  "joinpath [''data'', ''pq'', ''year=2020''] ''month=02'' =
     [''data'', ''pq'', ''year=2020'', ''month=02'']"
  by (simp_all add: Path_def joinpath_def)

lemma example_stems:
  "child_directory_stems (fs example_env) [''data'', ''pq''] = [''year=2020'', ''year=2021'']"
  "child_directory_stems (fs example_env) [''data'', ''pq'', ''year=2020''] =
     [''month=01'', ''month=02'']"
  "child_directory_stems (fs example_env) [''data'', ''pq'', ''year=2020'', ''month=02''] =
     [''day=1'']"
  by (simp_all add: child_directory_stems_def scandir_def example_defs stem_of_name_def)

text \<open>
  Claim C1 at the example: two levels are chosen, and the three dropdowns are filled.
\<close>

theorem partition_dropdowns_witness:
  "runs_without_exception example_env partitions_chosen \<and> wf_node (fs example_env) \<and>
   altered (pqt_pth partitions_chosen) \<and> val (pqt_pth partitions_chosen) = Some ''/data/pq'' \<and>
   altered (pqt_prt_01 partitions_chosen) \<and> val (pqt_prt_01 partitions_chosen) = Some ''year=2020'' \<and>
   altered (pqt_prt_02 partitions_chosen) \<and> val (pqt_prt_02 partitions_chosen) = Some ''month=02'' \<and>
   (\<exists>ps'. updateParameters example_env partitions_chosen = Inr ps' \<and>
      enabled (pqt_prt_01 ps') \<and> filter_list (pqt_prt_01 ps') = [''year=2020'', ''year=2021''] \<and>
      enabled (pqt_prt_02 ps') \<and> filter_list (pqt_prt_02 ps') = [''month=01'', ''month=02''] \<and>
      enabled (pqt_prt_03 ps') \<and> filter_list (pqt_prt_03 ps') = [''day=1''])"
proof -
  have h: "altered (pqt_pth partitions_chosen)" "val (pqt_pth partitions_chosen) = Some ''/data/pq''"
    by (simp_all add: example_defs)
  have v: "altered (pqt_prt_01 partitions_chosen) \<and> val (pqt_prt_01 partitions_chosen) = Some ''year=2020'' \<and>
      altered (pqt_prt_02 partitions_chosen) \<and> val (pqt_prt_02 partitions_chosen) = Some ''month=02''"
    by (simp add: example_defs)
  from partition_dropdowns [OF example_runs(2) example_wf h]
  show ?thesis
    using example_runs(2) example_wf h v
    by (auto simp add: example_paths example_stems)
qed


text \<open>
  What the code does about part files. With the Parquet folder supplied, the error
  message is set on the folder parameter exactly when no entry at any depth below the
  folder, file or directory, has a name that matches \<^verbatim>\<open>part-*.parquet\<close>; otherwise the
  message is left as it was.
\<close>

lemma part_file_message_by_name:
  assumes "runs_without_exception e ps"
    and "altered (pqt_pth ps)" and "val (pqt_pth ps) = Some folder"
  shows \<open>\<exists>ps'. updateParameters e ps = Inr ps' \<and>
     message (pqt_pth ps') =
       (if \<exists>n \<in> set (entries_below (fs e) (Path folder)).
             path_match (ignore_case e) ''part-*.parquet'' (node_name n)
        then message (pqt_pth ps)
        else Some ''Cannot locate parquet "part" files.'')\<close>
proof -
  from assms(1) obtain ps' where r: "updateParameters e ps = Inr ps'"
    using updateParameters_returns by blast
  have "message (pqt_pth ps') =
       (if \<exists>n \<in> set (entries_below (fs e) (Path folder)).
             path_match (ignore_case e) ''part-*.parquet'' (node_name n)
        then message (pqt_pth ps)
        else Some part_file_message)"
    using updateParameters_fields(1) [OF r] assms(2,3)
    by (simp add: rglob_empty)
  with r show ?thesis
    by (auto simp: part_file_message_def)
qed

lemmas example_defs2 =
  empty_folder_chosen_def sample_of_zero_def sample_switched_off_def point_geometry_def
  h3_geometry_def odd_folder_chosen_def

text \<open>
  At the example: a folder with nothing in it gets the message; the folder of the dataset,
  with its part files two and three levels down, does not. Without regard to case, a part
  file in capitals is a part file.
\<close>

lemma example_matches:
  "path_match True ''part-*.parquet'' ''part-0.parquet''"
  "path_match True ''part-*.parquet'' ''part-0000.parquet''"
  "path_match True ''part-*.parquet'' ''PART-0001.PARQUET''"
  "\<not> path_match False ''part-*.parquet'' ''PART-0001.PARQUET''"
  "\<not> path_match True ''part-*.parquet'' ''data.parquet''"
  by code_simp+

lemma empty_folder_gets_message:
  \<open>\<exists>ps'. updateParameters example_env empty_folder_chosen = Inr ps' \<and>
      message (pqt_pth ps') = Some ''Cannot locate parquet "part" files.''\<close>
proof -
  have r: "runs_without_exception example_env empty_folder_chosen"
    by (simp add: runs_without_exception_def example_defs example_defs2)
  have h: "altered (pqt_pth empty_folder_chosen)"
    "val (pqt_pth empty_folder_chosen) = Some ''/data/empty''"
    by (simp_all add: example_defs example_defs2)
  have e: "entries_below (fs example_env) (Path ''/data/empty'') = []"
    by (simp add: entries_below_def Path_def example_defs)
  from part_file_message_by_name [OF r h] show ?thesis
    by (simp add: e)
qed

lemma dataset_folder_gets_no_message:
  "\<exists>ps'. updateParameters example_env output_chosen = Inr ps' \<and> message (pqt_pth ps') = None"
proof -
  have h: "altered (pqt_pth output_chosen)" "val (pqt_pth output_chosen) = Some ''/data/pq''"
    "message (pqt_pth output_chosen) = None" "ignore_case example_env"
    by (simp_all add: example_defs)
  have "File ''part-0000.parquet'' \<in> set (entries_below (fs example_env) (Path ''/data/pq''))"
    by (simp add: entries_below_def Path_def example_defs)
  then have "\<exists>n \<in> set (entries_below (fs example_env) (Path ''/data/pq'')).
      path_match (ignore_case example_env) ''part-*.parquet'' (node_name n)"
    using example_matches(2) h(4) by force
  with part_file_message_by_name [OF example_runs(1) h(1,2)] show ?thesis
    by (simp add: h(3))
qed

text \<open>
  Claim C3 fails on the code. The folder holds the file \<^verbatim>\<open>data.parquet\<close> and the empty
  directory \<^verbatim>\<open>part-0.parquet\<close>: no file below it has a name that matches
  \<^verbatim>\<open>part-*.parquet\<close>, and yet \<open>updateParameters\<close> returns without the message, because
  the directory is counted as a part file.
\<close>

theorem part_directory_counted_as_part_file:
  "altered (pqt_pth odd_folder_chosen) \<and> val (pqt_pth odd_folder_chosen) = Some ''/data/odd'' \<and>
   files_below (fs example_env) (Path ''/data/odd'') = [File ''data.parquet''] \<and>
   \<not> path_match (ignore_case example_env) ''part-*.parquet'' ''data.parquet'' \<and>
   \<not> isl (updateParameters example_env odd_folder_chosen) \<and>
   message (pqt_pth (projr (updateParameters example_env odd_folder_chosen))) = None"
proof -
  have r: "runs_without_exception example_env odd_folder_chosen"
    by (simp add: runs_without_exception_def example_defs example_defs2)
  have h: "altered (pqt_pth odd_folder_chosen)"
    "val (pqt_pth odd_folder_chosen) = Some ''/data/odd''"
    "message (pqt_pth odd_folder_chosen) = None" "ignore_case example_env"
    by (simp_all add: example_defs example_defs2)
  have e: "entries_below (fs example_env) (Path ''/data/odd'') =
      [Dir ''part-0.parquet'' [], File ''data.parquet'']"
    by (simp add: entries_below_def Path_def example_defs)
  then have f: "files_below (fs example_env) (Path ''/data/odd'') = [File ''data.parquet'']"
    by (simp add: files_below_def)
  obtain ps' where p: "updateParameters example_env odd_folder_chosen = Inr ps'"
    and m: "message (pqt_pth ps') = None"
    using part_file_message_by_name [OF r h(1,2)] example_matches(1)
    by (auto simp: e h(3,4))
  show ?thesis
    using h f p m example_matches(5) by simp
qed

text \<open>
  Claim C4. The error message is set on the sample count exactly when the sample flag is
  \<^verbatim>\<open>True\<close> and the count is missing or below one; otherwise the message is left as it
  was. When the flag has been altered to \<^verbatim>\<open>False\<close> and the count is missing or below
  one, the count is reset to 100.
\<close>

theorem sample_count_validation:
  assumes "runs_without_exception e ps"
  shows "\<exists>ps'. updateParameters e ps = Inr ps' \<and>
     message (smpl_cnt ps') =
       (if val (smpl ps) = Some True \<and> (case val (smpl_cnt ps) of None \<Rightarrow> True | Some n \<Rightarrow> n < 1)
        then Some ''Sample count must be greater than zero.''
        else message (smpl_cnt ps)) \<and>
     (altered (smpl ps) \<and> val (smpl ps) = Some False \<and>
      (case val (smpl_cnt ps) of None \<Rightarrow> True | Some n \<Rightarrow> n < 1) \<longrightarrow>
        val (smpl_cnt ps') = Some 100)"
proof -
  from assms obtain ps' where r: "updateParameters e ps = Inr ps'"
    using updateParameters_returns by blast
  have s: "smpl_cnt ps' = smpl_cnt (check_sample ps)"
    by (rule updateParameters_fields(5) [OF r])
  have m: "message (smpl_cnt (check_sample ps)) =
       (if val (smpl ps) = Some True \<and> (case val (smpl_cnt ps) of None \<Rightarrow> True | Some n \<Rightarrow> n < 1)
        then Some sample_count_message
        else message (smpl_cnt ps))"
    by (simp add: check_sample_def count_below_one_def split: option.splits)
  have v: "altered (smpl ps) \<and> val (smpl ps) = Some False \<and>
      (case val (smpl_cnt ps) of None \<Rightarrow> True | Some n \<Rightarrow> n < 1) \<longrightarrow>
        val (smpl_cnt (check_sample ps)) = Some 100"
    by (simp add: check_sample_def count_below_one_def split: option.splits)
  show ?thesis
    using r m v by (auto simp: s sample_count_message_def)
qed

text \<open>
  Claim C4 at the example: a sample of no rows gets the message; with the sample switched
  off, the count is reset to 100 and there is no message.
\<close>

theorem sample_count_validation_witness:
  "runs_without_exception example_env sample_of_zero \<and>
   val (smpl sample_of_zero) = Some True \<and> val (smpl_cnt sample_of_zero) = Some 0 \<and>
   (\<exists>ps'. updateParameters example_env sample_of_zero = Inr ps' \<and>
      message (smpl_cnt ps') = Some ''Sample count must be greater than zero.'') \<and>
   runs_without_exception example_env sample_switched_off \<and>
   altered (smpl sample_switched_off) \<and> val (smpl sample_switched_off) = Some False \<and>
   val (smpl_cnt sample_switched_off) = Some 0 \<and>
   (\<exists>ps'. updateParameters example_env sample_switched_off = Inr ps' \<and>
      message (smpl_cnt ps') = None \<and> val (smpl_cnt ps') = Some 100)"
proof -
  have r: "runs_without_exception example_env sample_of_zero"
    "runs_without_exception example_env sample_switched_off"
    by (simp_all add: runs_without_exception_def example_defs example_defs2)
  have a: "val (smpl sample_of_zero) = Some True \<and> val (smpl_cnt sample_of_zero) = Some 0"
    by (simp add: example_defs example_defs2)
  have b: "altered (smpl sample_switched_off) \<and> val (smpl sample_switched_off) = Some False \<and>
      val (smpl_cnt sample_switched_off) = Some 0 \<and> message (smpl_cnt sample_switched_off) = None"
    by (simp add: example_defs example_defs2)
  from sample_count_validation [OF r(1)] sample_count_validation [OF r(2)]
  show ?thesis
    using r a b by auto
qed

subsection \<open>Column parameters\<close>

lemma required_columns_geom_col:
  "geom_col (required_columns d ps) =
     (if altered (geom_type ps) \<or> altered (pqt_pth ps) then
        (if val (geom_type ps) = Some ''COORDINATES'' \<or> val (geom_type ps) = Some ''H3''
         then deactivate_parameter (geom_col ps)
         else require_column (geom_col_value d) (geom_col ps))
      else geom_col ps)"
  by (simp add: required_columns_def)

lemma required_columns_x_col:
  "x_col (required_columns d ps) =
     (if altered (geom_type ps) \<or> altered (pqt_pth ps) then
        (if val (geom_type ps) = Some ''COORDINATES''
         then require_column (x_col_value d) (x_col ps)
         else deactivate_parameter (x_col ps))
      else x_col ps)"
  by (simp add: required_columns_def)

lemma required_columns_y_col:
  "y_col (required_columns d ps) =
     (if altered (geom_type ps) \<or> altered (pqt_pth ps) then
        (if val (geom_type ps) = Some ''COORDINATES''
         then require_column (y_col_value d) (y_col ps)
         else deactivate_parameter (y_col ps))
      else y_col ps)"
  by (simp add: required_columns_def)

lemma required_columns_h3_col:
  "h3_col (required_columns d ps) =
     (if altered (geom_type ps) \<or> altered (pqt_pth ps) then
        (if val (geom_type ps) = Some ''H3''
         then require_column (h3_col_value d) (h3_col ps)
         else deactivate_parameter (h3_col ps))
      else h3_col ps)"
  by (simp add: required_columns_def)

lemma require_column_props:
  "active (require_column dflt p)"
  "val (require_column dflt p) = (if val p = None then dflt else val p)"
  "filter_list (require_column dflt p) = filter_list p"
  by (simp_all add: require_column_def active_def Let_def)

lemma deactivate_parameter_props:
  "inactive (deactivate_parameter p)"
  "val (deactivate_parameter p) = val p"
  "filter_list (deactivate_parameter p) = filter_list p"
  by (simp_all add: deactivate_parameter_def inactive_def)

lemma no_defaults_simps:
  "geom_col_value no_defaults = None" "x_col_value no_defaults = None"
  "y_col_value no_defaults = None" "h3_col_value no_defaults = None"
  by (simp_all add: no_defaults_def)

lemma find_rev_Some:
  assumes "\<exists>c \<in> set cols. P c"
  shows "\<exists>c \<in> set cols. P c \<and> find P (rev cols) = Some c"
proof (cases "find P (rev cols)")
  case None
  with assms show ?thesis by (auto simp: find_None_iff)
next
  case (Some c)
  then have "c \<in> set cols" using find_in_set by fastforce
  moreover have "P c" using Some by (auto simp: find_Some_iff)
  ultimately show ?thesis using Some by blast
qed

text \<open>
  Claim C6, as amended. With the Parquet folder supplied, the options of the geometry
  column are the column names of the schema; and when the geometry type is neither
  COORDINATES nor H3, the geometry column had no value and some column name contains
  \<^verbatim>\<open>wkb\<close> after lowercasing, the geometry column is set to such a column.
\<close>

theorem geometry_column_default:
  assumes "runs_without_exception e ps"
    and "altered (pqt_pth ps)" and "val (pqt_pth ps) = Some folder"
    and "schema_names e folder = Some cols"
  shows "\<exists>ps'. updateParameters e ps = Inr ps' \<and>
     filter_list (geom_col ps') = cols \<and>
     (val (geom_type ps) \<noteq> Some ''COORDINATES'' \<and> val (geom_type ps) \<noteq> Some ''H3'' \<and>
      val (geom_col ps) = None \<and> (\<exists>c \<in> set cols. sublist ''wkb'' (lower c)) \<longrightarrow>
        (\<exists>c \<in> set cols. sublist ''wkb'' (lower c) \<and> val (geom_col ps') = Some c))"
proof -
  from assms(1) obtain ps' where r: "updateParameters e ps = Inr ps'"
    using updateParameters_returns by blast
  from r obtain d qs where
    q: "if altered (pqt_pth ps)
     then \<exists>s cols. val (pqt_pth ps) = Some s \<and> schema_names e s = Some cols \<and>
            d = search_defaults cols no_defaults \<and>
            geom_col qs = (geom_col ps)\<lparr>filter_list := cols\<rparr> \<and>
            x_col qs = (x_col ps)\<lparr>filter_list := cols\<rparr> \<and>
            y_col qs = (y_col ps)\<lparr>filter_list := cols\<rparr> \<and>
            h3_col qs = (h3_col ps)\<lparr>filter_list := cols\<rparr>
     else d = no_defaults \<and> geom_col qs = geom_col ps \<and> x_col qs = x_col ps \<and>
          y_col qs = y_col ps \<and> h3_col qs = h3_col ps"
    and t: "geom_type qs = geom_type ps" "altered (pqt_pth qs) = altered (pqt_pth ps)"
    and g: "geom_col ps' = geom_col (required_columns d qs)"
    by (rule updateParameters_columns)
  from q assms(2-4) have d: "d = search_defaults cols no_defaults"
    and gq: "geom_col qs = (geom_col ps)\<lparr>filter_list := cols\<rparr>"
    by auto
  have fl: "filter_list (geom_col ps') = cols"
    by (simp add: g required_columns_geom_col t assms(2) gq require_column_props
        deactivate_parameter_props)
  have gv: "val (geom_type ps) \<noteq> Some ''COORDINATES'' \<Longrightarrow> val (geom_type ps) \<noteq> Some ''H3'' \<Longrightarrow>
      val (geom_col ps) = None \<Longrightarrow>
      val (geom_col ps') = find (\<lambda>c. sublist ''wkb'' (lower c)) (rev cols)"
    by (simp add: g required_columns_geom_col t assms(2) gq require_column_props d
        search_defaults_geom no_defaults_simps split: option.splits)
  have dv: "\<exists>c \<in> set cols. sublist ''wkb'' (lower c) \<and> val (geom_col ps') = Some c"
    if "val (geom_type ps) \<noteq> Some ''COORDINATES''" "val (geom_type ps) \<noteq> Some ''H3''"
      "val (geom_col ps) = None" "\<exists>c \<in> set cols. sublist ''wkb'' (lower c)"
    using find_rev_Some [of cols "\<lambda>c. sublist ''wkb'' (lower c)", OF that(4)]
    unfolding gv [OF that(1-3)] .
  show ?thesis
  proof (intro exI conjI impI)
    show "updateParameters e ps = Inr ps'" by (rule r)
    show "filter_list (geom_col ps') = cols" by (rule fl)
    assume "val (geom_type ps) \<noteq> Some ''COORDINATES'' \<and> val (geom_type ps) \<noteq> Some ''H3'' \<and>
      val (geom_col ps) = None \<and> (\<exists>c \<in> set cols. sublist ''wkb'' (lower c))"
    then show "\<exists>c \<in> set cols. sublist ''wkb'' (lower c) \<and> val (geom_col ps') = Some c"
      using dv by blast
  qed
qed


text \<open>
  Claim C7. With the Parquet folder supplied and the geometry type COORDINATES, the
  longitude column, if it had no value, becomes the last schema column whose lowercased
  name is \<^verbatim>\<open>x\<close>, \<^verbatim>\<open>lon\<close> or \<^verbatim>\<open>longitude\<close> (none if there is no such column), and keeps
  its value otherwise; likewise the latitude column with \<^verbatim>\<open>y\<close>, \<^verbatim>\<open>lat\<close>, \<^verbatim>\<open>latitude\<close>.
  With the geometry type H3 the same holds of the H3 column and the names that start
  with \<^verbatim>\<open>h3\<close>.
\<close>

theorem coordinate_and_h3_defaults:
  assumes "runs_without_exception e ps"
    and "altered (pqt_pth ps)" and "val (pqt_pth ps) = Some folder"
    and "schema_names e folder = Some cols"
  shows "\<exists>ps'. updateParameters e ps = Inr ps' \<and>
     (val (geom_type ps) = Some ''COORDINATES'' \<longrightarrow>
        val (x_col ps') =
          (if val (x_col ps) = None
           then find (\<lambda>c. lower c \<in> {''x'', ''lon'', ''longitude''}) (rev cols)
           else val (x_col ps)) \<and>
        val (y_col ps') =
          (if val (y_col ps) = None
           then find (\<lambda>c. lower c \<in> {''y'', ''lat'', ''latitude''}) (rev cols)
           else val (y_col ps))) \<and>
     (val (geom_type ps) = Some ''H3'' \<longrightarrow>
        val (h3_col ps') =
          (if val (h3_col ps) = None
           then find (\<lambda>c. prefix ''h3'' (lower c)) (rev cols)
           else val (h3_col ps)))"
proof -
  from assms(1) obtain ps' where r: "updateParameters e ps = Inr ps'"
    using updateParameters_returns by blast
  from r obtain d qs where
    q: "if altered (pqt_pth ps)
     then \<exists>s cols. val (pqt_pth ps) = Some s \<and> schema_names e s = Some cols \<and>
            d = search_defaults cols no_defaults \<and>
            geom_col qs = (geom_col ps)\<lparr>filter_list := cols\<rparr> \<and>
            x_col qs = (x_col ps)\<lparr>filter_list := cols\<rparr> \<and>
            y_col qs = (y_col ps)\<lparr>filter_list := cols\<rparr> \<and>
            h3_col qs = (h3_col ps)\<lparr>filter_list := cols\<rparr>
     else d = no_defaults \<and> geom_col qs = geom_col ps \<and> x_col qs = x_col ps \<and>
          y_col qs = y_col ps \<and> h3_col qs = h3_col ps"
    and t: "geom_type qs = geom_type ps" "altered (pqt_pth qs) = altered (pqt_pth ps)"
    and c: "x_col ps' = x_col (required_columns d qs)"
      "y_col ps' = y_col (required_columns d qs)"
      "h3_col ps' = h3_col (required_columns d qs)"
    by (rule updateParameters_columns)
  from q assms(2-4) have d: "d = search_defaults cols no_defaults"
    and cq: "x_col qs = (x_col ps)\<lparr>filter_list := cols\<rparr>"
      "y_col qs = (y_col ps)\<lparr>filter_list := cols\<rparr>"
      "h3_col qs = (h3_col ps)\<lparr>filter_list := cols\<rparr>"
    by auto
  have x: "val (geom_type ps) = Some ''COORDINATES'' \<longrightarrow>
        val (x_col ps') =
          (if val (x_col ps) = None
           then find (\<lambda>c. lower c \<in> {''x'', ''lon'', ''longitude''}) (rev cols)
           else val (x_col ps))"
    by (simp add: c required_columns_x_col t assms(2) cq require_column_props d
        search_defaults_x no_defaults_simps split: option.splits)
  have y: "val (geom_type ps) = Some ''COORDINATES'' \<longrightarrow>
        val (y_col ps') =
          (if val (y_col ps) = None
           then find (\<lambda>c. lower c \<in> {''y'', ''lat'', ''latitude''}) (rev cols)
           else val (y_col ps))"
    by (simp add: c required_columns_y_col t assms(2) cq require_column_props d
        search_defaults_y no_defaults_simps split: option.splits)
  have h: "val (geom_type ps) = Some ''H3'' \<longrightarrow>
        val (h3_col ps') =
          (if val (h3_col ps) = None
           then find (\<lambda>c. prefix ''h3'' (lower c)) (rev cols)
           else val (h3_col ps))"
    by (simp add: c required_columns_h3_col t assms(2) cq require_column_props d
        search_defaults_h3 no_defaults_simps split: option.splits)
  show ?thesis using r x y h by blast
qed

text \<open>
  Claim C8. After a run with the geometry type or the Parquet folder altered, exactly the
  column group of the geometry type is enabled and required: longitude and latitude for
  COORDINATES, the H3 column for H3, the geometry column otherwise; the other column
  parameters are deactivated (disabled, and not required).
\<close>

theorem one_column_group:
  assumes "runs_without_exception e ps"
    and "altered (geom_type ps) \<or> altered (pqt_pth ps)"
  shows "\<exists>ps'. updateParameters e ps = Inr ps' \<and>
     (if val (geom_type ps) = Some ''COORDINATES'' then
        active (x_col ps') \<and> active (y_col ps') \<and>
        inactive (h3_col ps') \<and> inactive (geom_col ps')
      else if val (geom_type ps) = Some ''H3'' then
        active (h3_col ps') \<and>
        inactive (x_col ps') \<and> inactive (y_col ps') \<and> inactive (geom_col ps')
      else
        active (geom_col ps') \<and>
        inactive (x_col ps') \<and> inactive (y_col ps') \<and> inactive (h3_col ps'))"
proof -
  from assms(1) obtain ps' where r: "updateParameters e ps = Inr ps'"
    using updateParameters_returns by blast
  from r obtain d qs where
    t: "geom_type qs = geom_type ps" "altered (pqt_pth qs) = altered (pqt_pth ps)"
    and c: "geom_col ps' = geom_col (required_columns d qs)"
      "x_col ps' = x_col (required_columns d qs)"
      "y_col ps' = y_col (required_columns d qs)"
      "h3_col ps' = h3_col (required_columns d qs)"
    by (rule updateParameters_columns)
  have "if val (geom_type ps) = Some ''COORDINATES'' then
        active (x_col ps') \<and> active (y_col ps') \<and>
        inactive (h3_col ps') \<and> inactive (geom_col ps')
      else if val (geom_type ps) = Some ''H3'' then
        active (h3_col ps') \<and>
        inactive (x_col ps') \<and> inactive (y_col ps') \<and> inactive (geom_col ps')
      else
        active (geom_col ps') \<and>
        inactive (x_col ps') \<and> inactive (y_col ps') \<and> inactive (h3_col ps')"
    using assms(2)
    by (simp add: c required_columns_geom_col required_columns_x_col required_columns_y_col
        required_columns_h3_col t require_column_props deactivate_parameter_props)
  with r show ?thesis by blast
qed


lemma geom_col_kept:
  assumes "updateParameters e ps = Inr ps'"
    and "val (geom_type ps) = Some ''COORDINATES'' \<or> val (geom_type ps) = Some ''H3''"
  shows "val (geom_col ps') = val (geom_col ps)"
proof -
  from assms(1) obtain d qs where
    q: "if altered (pqt_pth ps)
     then \<exists>s cols. val (pqt_pth ps) = Some s \<and> schema_names e s = Some cols \<and>
            d = search_defaults cols no_defaults \<and>
            geom_col qs = (geom_col ps)\<lparr>filter_list := cols\<rparr> \<and>
            x_col qs = (x_col ps)\<lparr>filter_list := cols\<rparr> \<and>
            y_col qs = (y_col ps)\<lparr>filter_list := cols\<rparr> \<and>
            h3_col qs = (h3_col ps)\<lparr>filter_list := cols\<rparr>
     else d = no_defaults \<and> geom_col qs = geom_col ps \<and> x_col qs = x_col ps \<and>
          y_col qs = y_col ps \<and> h3_col qs = h3_col ps"
    and t: "geom_type qs = geom_type ps" "altered (pqt_pth qs) = altered (pqt_pth ps)"
    and g: "geom_col ps' = geom_col (required_columns d qs)"
    by (rule updateParameters_columns)
  from q have "val (geom_col qs) = val (geom_col ps)"
    by (auto split: if_splits)
  with assms(2) show ?thesis
    by (auto simp: g required_columns_geom_col t deactivate_parameter_props)
qed

lemma example_columns:
  "schema_names example_env ''/data/pq'' =
     Some [''id'', ''Longitude'', ''LAT'', ''lat'', ''geom_WKB'', ''h3_09'']"
  by (simp add: example_defs)

lemma example_lower:
  "lower ''id'' = ''id''" "lower ''Longitude'' = ''longitude''" "lower ''LAT'' = ''lat''"
  "lower ''lat'' = ''lat''" "lower ''geom_WKB'' = ''geom_wkb''" "lower ''h3_09'' = ''h3_09''"
  by code_simp+

text \<open>
  Claim C6 as stated fails: with the geometry type COORDINATES, the geometry column had no
  value, the schema has the column \<^verbatim>\<open>geom_WKB\<close>, and the geometry column still has no
  value after the run.
\<close>

theorem geometry_column_left_unset:
  "altered (pqt_pth output_chosen) \<and> val (pqt_pth output_chosen) = Some ''/data/pq'' \<and>
   val (geom_col output_chosen) = None \<and>
   schema_names example_env ''/data/pq'' =
     Some [''id'', ''Longitude'', ''LAT'', ''lat'', ''geom_WKB'', ''h3_09''] \<and>
   sublist ''wkb'' (lower ''geom_WKB'') \<and>
   \<not> isl (updateParameters example_env output_chosen) \<and>
   val (geom_col (projr (updateParameters example_env output_chosen))) = None"
proof -
  obtain ps' where r: "updateParameters example_env output_chosen = Inr ps'"
    using updateParameters_returns [OF example_runs(1)] by blast
  have f: "altered (pqt_pth output_chosen)" "val (pqt_pth output_chosen) = Some ''/data/pq''"
    "val (geom_col output_chosen) = None" "val (geom_type output_chosen) = Some ''COORDINATES''"
    by (simp_all add: example_defs)
  have "val (geom_col ps') = None"
    using geom_col_kept [OF r] f by simp
  moreover have "sublist ''wkb'' (lower ''geom_WKB'')"
    by (simp add: example_lower sublist_code)
  ultimately show ?thesis
    using r f example_columns by simp
qed

text \<open>
  Claim C6, as amended, at the example: with the geometry type POINT the geometry column
  becomes \<^verbatim>\<open>geom_WKB\<close>.
\<close>

theorem geometry_column_default_witness:
  "runs_without_exception example_env point_geometry \<and>
   altered (pqt_pth point_geometry) \<and> val (pqt_pth point_geometry) = Some ''/data/pq'' \<and>
   schema_names example_env ''/data/pq'' =
     Some [''id'', ''Longitude'', ''LAT'', ''lat'', ''geom_WKB'', ''h3_09''] \<and>
   val (geom_type point_geometry) = Some ''POINT'' \<and> val (geom_col point_geometry) = None \<and>
   (\<exists>ps'. updateParameters example_env point_geometry = Inr ps' \<and>
      filter_list (geom_col ps') = [''id'', ''Longitude'', ''LAT'', ''lat'', ''geom_WKB'', ''h3_09''] \<and>
      val (geom_col ps') = Some ''geom_WKB'')"
proof -
  have r: "runs_without_exception example_env point_geometry"
    by (simp add: runs_without_exception_def example_defs example_defs2)
  have f: "altered (pqt_pth point_geometry)" "val (pqt_pth point_geometry) = Some ''/data/pq''"
    by (simp_all add: example_defs example_defs2)
  have g: "val (geom_type point_geometry) = Some ''POINT''" "val (geom_col point_geometry) = None"
    by (simp_all add: example_defs example_defs2)
  from geometry_column_default [OF r f example_columns]
  show ?thesis
    using r f g example_columns
    by (auto simp: example_lower sublist_code)
qed

text \<open>
  Claim C7 at the example: \<^verbatim>\<open>Longitude\<close> and \<^verbatim>\<open>lat\<close> (the last of \<^verbatim>\<open>LAT\<close> and \<^verbatim>\<open>lat\<close>)
  for COORDINATES, \<^verbatim>\<open>h3_09\<close> for H3.
\<close>

theorem coordinate_and_h3_defaults_witness:
  "runs_without_exception example_env output_chosen \<and>
   altered (pqt_pth output_chosen) \<and> val (pqt_pth output_chosen) = Some ''/data/pq'' \<and>
   schema_names example_env ''/data/pq'' =
     Some [''id'', ''Longitude'', ''LAT'', ''lat'', ''geom_WKB'', ''h3_09''] \<and>
   val (geom_type output_chosen) = Some ''COORDINATES'' \<and>
   val (x_col output_chosen) = None \<and> val (y_col output_chosen) = None \<and>
   (\<exists>ps'. updateParameters example_env output_chosen = Inr ps' \<and>
      val (x_col ps') = Some ''Longitude'' \<and> val (y_col ps') = Some ''lat'') \<and>
   runs_without_exception example_env h3_geometry \<and>
   altered (pqt_pth h3_geometry) \<and> val (pqt_pth h3_geometry) = Some ''/data/pq'' \<and>
   val (geom_type h3_geometry) = Some ''H3'' \<and> val (h3_col h3_geometry) = None \<and>
   (\<exists>ps'. updateParameters example_env h3_geometry = Inr ps' \<and>
      val (h3_col ps') = Some ''h3_09'')"
proof -
  have r: "runs_without_exception example_env h3_geometry"
    by (simp add: runs_without_exception_def example_defs example_defs2)
  have f: "altered (pqt_pth output_chosen)" "val (pqt_pth output_chosen) = Some ''/data/pq''"
    by (simp_all add: example_defs)
  have f': "altered (pqt_pth h3_geometry)" "val (pqt_pth h3_geometry) = Some ''/data/pq''"
    by (simp_all add: example_defs example_defs2)
  have g: "val (geom_type output_chosen) = Some ''COORDINATES''"
    "val (x_col output_chosen) = None" "val (y_col output_chosen) = None"
    by (simp_all add: example_defs)
  have g': "val (geom_type h3_geometry) = Some ''H3''" "val (h3_col h3_geometry) = None"
    by (simp_all add: example_defs example_defs2)
  from coordinate_and_h3_defaults [OF example_runs(1) f example_columns]
    coordinate_and_h3_defaults [OF r f' example_columns]
  show ?thesis
    using example_runs(1) r f f' g g' example_columns
    by (auto simp: example_lower)
qed

text \<open>
  Claim C8 at the example: the geometry type is COORDINATES.
\<close>

theorem one_column_group_witness:
  "runs_without_exception example_env output_chosen \<and> altered (pqt_pth output_chosen) \<and>
   val (geom_type output_chosen) = Some ''COORDINATES'' \<and>
   (\<exists>ps'. updateParameters example_env output_chosen = Inr ps' \<and>
      active (x_col ps') \<and> active (y_col ps') \<and>
      inactive (h3_col ps') \<and> inactive (geom_col ps'))"
proof -
  have f: "altered (pqt_pth output_chosen)"
    "val (geom_type output_chosen) = Some ''COORDINATES''"
    by (simp_all add: example_defs)
  then have a: "altered (geom_type output_chosen) \<or> altered (pqt_pth output_chosen)"
    by simp
  from one_column_group [OF example_runs(1) a]
  show ?thesis
    using example_runs(1) f by auto
qed

end
